theory Spec2Isabelle
  imports Main "HOL-Library.Multiset"
begin

section \<open>Errors\<close>

text \<open>
  Every \<^verbatim>\<open>throw\<close> of the modelled code and every failure of a builtin it calls is a
  value of this type. \<open>Error\<close> carries the message of \<^verbatim>\<open>new Error(message)\<close>;
  \<open>RequestRejected\<close> stands for the rejection of an awaited backend request.
\<close>

datatype error = SyntaxError | TypeError | Error string | RequestRejected

section \<open>ItemsDropdown: searching the options\<close>

subsection \<open>lodash \<^verbatim>\<open>escapeRegExp\<close>\<close>

text \<open>
  \<^verbatim>\<open>escapeRegExp\<close> replaces every match of \<^verbatim>\<open>/[\\^$.*+?()[\]{}|]/g\<close> by a backslash
  followed by the match. The fourteen characters of that class are the
  \<^emph>\<open>SyntaxCharacter\<close>s of the RegExp grammar.
\<close>

definition backslash :: char where
  "backslash = CHR 0x5C"

definition syntaxCharacters :: string where
  "syntaxCharacters = backslash # ''^$.*+?()[]{}|''"

definition isSyntaxCharacter :: "char \<Rightarrow> bool" where
  "isSyntaxCharacter c = (c \<in> set syntaxCharacters)"

definition escapeRegExp :: "string \<Rightarrow> string" where
  "escapeRegExp s = concat (map (\<lambda>c. if isSyntaxCharacter c then [backslash, c] else [c]) s)"

subsection \<open>\<^verbatim>\<open>new RegExp(source, 'i')\<close> and \<^verbatim>\<open>test\<close>\<close>

text \<open>
  The pattern source is read left to right. A character that is not a SyntaxCharacter is
  a \<open>PatternCharacter\<close> and stands for itself; a backslash followed by a
  SyntaxCharacter is an identity escape and stands for that character; an unescaped
  SyntaxCharacter is an operator of the pattern language (\<open>Operator\<close>); a backslash
  followed by any other character is one of the remaining escapes (\<open>AtomEscape\<close>:
  character classes, assertions, back references). A source that ends in a lone
  backslash is a SyntaxError.
\<close>

datatype pattern_item = PatternCharacter char | Operator char | AtomEscape char

fun pattern_items :: "string \<Rightarrow> pattern_item list option" where
  "pattern_items [] = Some []"
| "pattern_items [c] =
     (if c = backslash then None
      else Some [if isSyntaxCharacter c then Operator c else PatternCharacter c])"
| "pattern_items (c # d # ds) =
     (if c = backslash
      then map_option ((#) (if isSyntaxCharacter d then PatternCharacter d else AtomEscape d))
             (pattern_items ds)
      else map_option ((#) (if isSyntaxCharacter c then Operator c else PatternCharacter c))
             (pattern_items (d # ds)))"

text \<open>The characters of a pattern made of literal characters only.\<close>

fun literal_pattern :: "pattern_item list \<Rightarrow> string option" where
  "literal_pattern [] = Some []"
| "literal_pattern (PatternCharacter c # its) = map_option ((#) c) (literal_pattern its)"
| "literal_pattern (Operator c # its) = None"
| "literal_pattern (AtomEscape c # its) = None"

text \<open>
  Matching a sequence of literal characters at the start of the subject, with the
  \<^verbatim>\<open>i\<close> flag: two characters agree when their canonical forms do. \<open>canon\<close> is the
  Canonicalize operation of the RegExp builtin (upper-casing of a code unit); it is a
  builtin of the language, not code of the repository, and is taken as a parameter.
\<close>

fun match_here :: "(char \<Rightarrow> char) \<Rightarrow> string \<Rightarrow> string \<Rightarrow> bool" where
  "match_here canon [] s = True"
| "match_here canon (p # ps) [] = False"
| "match_here canon (p # ps) (c # cs) = (canon p = canon c \<and> match_here canon ps cs)"

text \<open>
  \<^verbatim>\<open>test\<close> on a regular expression without the \<^verbatim>\<open>g\<close> and \<^verbatim>\<open>y\<close> flags tries the
  pattern at index 0, 1, ... of the subject, up to and including its length.
\<close>

fun literal_test :: "(char \<Rightarrow> char) \<Rightarrow> string \<Rightarrow> string \<Rightarrow> bool" where
  "literal_test canon pat [] = match_here canon pat []"
| "literal_test canon pat (c # cs) =
     (match_here canon pat (c # cs) \<or> literal_test canon pat cs)"

text \<open>
  The rest of the pattern language (everything that has an operator or a class escape) is
  the builtin's business: \<open>engine\<close> gives, for such a pattern, \<open>None\<close> when it is a
  SyntaxError and otherwise its \<^verbatim>\<open>test\<close> function.
\<close>

type_synonym pattern_engine = "pattern_item list \<Rightarrow> (string \<Rightarrow> bool) option"

definition RegExp_i ::
  "(char \<Rightarrow> char) \<Rightarrow> pattern_engine \<Rightarrow> string \<Rightarrow> error + (string \<Rightarrow> bool)" where
  "RegExp_i canon engine source =
     (case pattern_items source of
        None \<Rightarrow> Inl SyntaxError
      | Some its \<Rightarrow>
          (case literal_pattern its of
             Some cs \<Rightarrow> Inr (literal_test canon cs)
           | None \<Rightarrow> (case engine its of None \<Rightarrow> Inl SyntaxError | Some t \<Rightarrow> Inr t)))"

text \<open>
  \<^verbatim>\<open>regex.test(x)\<close> converts its argument to a string first. The options are typed
  \<^verbatim>\<open>Array<any>\<close>; a field of an option is taken to be a string, \<^verbatim>\<open>null\<close>, or absent,
  which reads as \<^verbatim>\<open>undefined\<close>. The string conversions of the last two are the texts
  \<^verbatim>\<open>null\<close> and \<^verbatim>\<open>undefined\<close>.
\<close>

datatype jsvalue = JSUndefined | JSNull | JSString string

definition ToString :: "jsvalue \<Rightarrow> string" where
  "ToString v =
     (case v of JSUndefined \<Rightarrow> ''undefined'' | JSNull \<Rightarrow> ''null'' | JSString s \<Rightarrow> s)"

subsection \<open>\<^verbatim>\<open>onSearchItemsDropdown\<close>\<close>

text \<open>The three fields the search destructures from an option (\<open>optionValue\<close> is \<^verbatim>\<open>value\<close>).\<close>

record ItemDropdown =
  label :: jsvalue
  detail :: jsvalue
  optionValue :: jsvalue

text \<open>lodash \<^verbatim>\<open>filter\<close> with a predicate that may throw: the first exception ends the call.\<close>

fun filter_lodash :: "('a \<Rightarrow> error + bool) \<Rightarrow> 'a list \<Rightarrow> error + 'a list" where
  "filter_lodash p [] = Inr []"
| "filter_lodash p (x # xs) =
     (case p x of
        Inl e \<Rightarrow> Inl e
      | Inr b \<Rightarrow>
          (case filter_lodash p xs of
             Inl e \<Rightarrow> Inl e
           | Inr ys \<Rightarrow> Inr (if b then x # ys else ys)))"

definition onSearchItemsDropdown ::
  "(char \<Rightarrow> char) \<Rightarrow> pattern_engine \<Rightarrow> string \<Rightarrow> ItemDropdown list \<Rightarrow> error + ItemDropdown list"
where
  "onSearchItemsDropdown canon engine searchValue options =
     filter_lodash
       (\<lambda>option.
          case RegExp_i canon engine (escapeRegExp searchValue) of
            Inl e \<Rightarrow> Inl e
          | Inr regex \<Rightarrow>
              Inr (regex (ToString (label option)) \<or> regex (ToString (detail option))
                   \<or> regex (ToString (optionValue option))))
       options"

subsection \<open>What the search is compared with\<close>

text \<open>
  \<open>p\<close> occurs in \<open>t\<close> as a case-insensitive literal substring: some stretch of \<open>t\<close>
  agrees with \<open>p\<close> character by character up to case.
\<close>

definition ci_substring :: "(char \<Rightarrow> char) \<Rightarrow> string \<Rightarrow> string \<Rightarrow> bool" where
  "ci_substring canon p t = (\<exists>pre m post. t = pre @ m @ post \<and> map canon m = map canon p)"

text \<open>
  A field that is a string and contains the search value; a field that is absent or
  \<^verbatim>\<open>null\<close> contains nothing.
\<close>

definition field_contains :: "(char \<Rightarrow> char) \<Rightarrow> string \<Rightarrow> jsvalue \<Rightarrow> bool" where
  "field_contains canon p f =
     (case f of JSString t \<Rightarrow> ci_substring canon p t | JSUndefined \<Rightarrow> False | JSNull \<Rightarrow> False)"

text \<open>Canonicalize on the ASCII letters, for concrete runs: \<^verbatim>\<open>a\<close>..\<^verbatim>\<open>z\<close> go to upper case.\<close>

definition ascii_canon :: "char \<Rightarrow> char" where
  "ascii_canon c =
     (case map_of (zip ''abcdefghijklmnopqrstuvwxyz'' ''ABCDEFGHIJKLMNOPQRSTUVWXYZ'') c of
        Some u \<Rightarrow> u
      | None \<Rightarrow> c)"

section \<open>WalletSendAssetsConfirmationDialog: the confirm button\<close>

text \<open>
  \<^verbatim>\<open>HwDeviceStatuses\<close> is not among the files; the one member the dialog names is a
  constructor, every other status is carried by its name.
\<close>

datatype HwDeviceStatus = VERIFYING_TRANSACTION_SUCCEEDED | OtherHwDeviceStatus string

text \<open>The props and the state that \<^verbatim>\<open>render\<close> reads for the dialog's actions.\<close>

record DialogProps =
  dialogIsHardwareWallet :: bool
  hwDeviceStatus :: HwDeviceStatus
  isFlight :: bool
  isSubmitting :: bool

record DialogState =
  areTermsAccepted :: bool

text \<open>
  The passphrase field of the form. Its validator accepts anything for a hardware wallet
  and otherwise refuses the empty value; \<open>isValid\<close> is the form library's flag for the
  field (the library is not among the files, the flag is read as data).
\<close>

record PassphraseField =
  fieldValue :: string
  isValid :: bool

definition passphraseValidator :: "DialogProps \<Rightarrow> PassphraseField \<Rightarrow> bool \<times> string option" where
  "passphraseValidator props field =
     (if dialogIsHardwareWallet props then (True, None)
      else if fieldValue field = [] then (False, Some ''fieldIsRequired'')
      else (True, None))"

datatype ButtonLabel = SendButtonLabel | BackButtonLabel | LoadingSpinner

datatype ButtonClick = OnCancel | NoOp | Submit

record DialogAction =
  actionLabel :: ButtonLabel
  onClick :: ButtonClick
  primary :: bool
  className :: string
  disabled :: bool

definition dialog_actions :: "DialogProps \<Rightarrow> DialogState \<Rightarrow> PassphraseField \<Rightarrow> DialogAction list" where
  "dialog_actions props state passphraseField =
     (let buttonLabel = (if \<not> isSubmitting props then SendButtonLabel else LoadingSpinner) in
      [\<lparr>actionLabel = BackButtonLabel,
        onClick = (if \<not> isSubmitting props then OnCancel else NoOp),
        primary = False, className = [], disabled = False\<rparr>,
       \<lparr>actionLabel = buttonLabel,
        onClick = Submit,
        primary = True,
        className = ''confirmButton'',
        disabled =
          ((\<not> dialogIsHardwareWallet props \<and> \<not> isValid passphraseField)
           \<or> (dialogIsHardwareWallet props
               \<and> hwDeviceStatus props \<noteq> VERIFYING_TRANSACTION_SUCCEEDED)
           \<or> (\<not> areTermsAccepted state \<and> isFlight props))\<rparr>])"

text \<open>The confirm (Send) button is the action of class \<^verbatim>\<open>confirmButton\<close>.\<close>

definition confirmButton :: "DialogProps \<Rightarrow> DialogState \<Rightarrow> PassphraseField \<Rightarrow> DialogAction option" where
  "confirmButton props state passphraseField =
     find (\<lambda>a. className a = ''confirmButton'') (dialog_actions props state passphraseField)"

section \<open>WalletsStore: the data\<close>

text \<open>
  The store's methods are written without their leading underscore, which a name cannot
  begin with here (\<open>setActiveWallet\<close> is \<^verbatim>\<open>_setActiveWallet\<close>, \<open>pollingBlocked\<close>
  is \<^verbatim>\<open>_pollingBlocked\<close>), and \<open>id'\<close> is the wallet's \<^verbatim>\<open>id\<close>.
\<close>

subsection \<open>Wallets and requests\<close>

text \<open>
  \<^verbatim>\<open>WalletSyncStateStatuses\<close> is not among the files; the member the store names is a
  constructor, the others are carried by name.
\<close>

datatype WalletSyncStateStatus = NOT_RESPONDING | OtherSyncStateStatus string

text \<open>
  The properties of a \<^verbatim>\<open>Wallet\<close> that the store reads. \<^verbatim>\<open>amount\<close> is a BigNumber,
  kept as an integer number of the smallest unit.
\<close>

record Wallet =
  id' :: string
  name :: string
  amount :: int
  isLegacy :: bool
  isHardwareWallet :: bool
  isNotResponding :: bool
  syncStateStatus :: WalletSyncStateStatus

text \<open>
  The class \<^verbatim>\<open>Request\<close> (\<^verbatim>\<open>./lib/LocalizedRequest\<close>) is not among the files. The
  store reads three of its observable fields, which are modelled as data, and calls
  \<^verbatim>\<open>execute\<close>, \<^verbatim>\<open>reset\<close> and \<^verbatim>\<open>patch\<close>. What these do is taken to be this: a
  request that is executed is in flight until the backend answers, the answer is stored
  as its result, a reset returns it to its initial state, and \<^verbatim>\<open>patch\<close> applies the
  function it is given to the result. No property below depends on more of the class
  than is written here.
\<close>

record 'a Request =
  result :: "'a option"
  wasExecuted :: bool
  isExecuting :: bool

definition Request_new :: "'a Request" where
  "Request_new = \<lparr>result = None, wasExecuted = False, isExecuting = False\<rparr>"

definition Request_reset :: "'a Request \<Rightarrow> 'a Request" where
  "Request_reset r = Request_new"

definition Request_execute :: "'a Request \<Rightarrow> 'a Request" where
  "Request_execute r = r\<lparr>isExecuting := True\<rparr>"

text \<open>What the backend answers to a request: a rejection, or a result that may be empty.\<close>

datatype 'a response = Rejected | Resolved "'a option"

definition Request_settle :: "'a response \<Rightarrow> 'a Request \<Rightarrow> 'a Request" where
  "Request_settle answer r =
     (case answer of
        Rejected \<Rightarrow> r\<lparr>wasExecuted := True, isExecuting := False\<rparr>
      | Resolved v \<Rightarrow> r\<lparr>result := v, wasExecuted := True, isExecuting := False\<rparr>)"

subsection \<open>What the store sends out\<close>

text \<open>
  A JavaScript number as \<^verbatim>\<open>parseInt\<close> returns it: an integer value, an infinity, or NaN.
\<close>

datatype jsnumber = Number int | Infinity | NaN

text \<open>An asset of the send form, and the asset as the backend request carries it.\<close>

record WalletSummaryAsset =
  policyId :: string
  assetName :: string

record FormattedAsset =
  policy_id :: string
  asset_name :: string
  quantity :: jsnumber

datatype restore_request =
    RestoreDaedalusRequest
  | RestoreByronRandomWalletRequest
  | RestoreByronIcarusWalletRequest
  | RestoreByronLedgerWalletRequest
  | RestoreByronTrezorWalletRequest

text \<open>
  The backend requests the modelled methods execute, with their arguments.
  \<open>CreateTransaction\<close> carries, in this order, \<^verbatim>\<open>address\<close>, \<^verbatim>\<open>amount\<close>,
  \<^verbatim>\<open>passphrase\<close>, \<^verbatim>\<open>walletId\<close>, \<^verbatim>\<open>isLegacy\<close> and \<^verbatim>\<open>assets\<close>;
  \<open>RestoreWallet\<close> the request it goes through and \<^verbatim>\<open>recoveryPhrase\<close>,
  \<^verbatim>\<open>walletName\<close>, \<^verbatim>\<open>spendingPassword\<close>; \<open>GetWalletRecoveryPhraseFromCertificate\<close>
  \<^verbatim>\<open>passphrase\<close> and \<^verbatim>\<open>scrambledInput\<close>; \<open>DeleteWallet\<close> \<^verbatim>\<open>walletId\<close> and
  \<^verbatim>\<open>isLegacy\<close>.
\<close>

datatype api_call =
    GetWallets
  | CreateTransaction string jsnumber string string bool "FormattedAsset list option"
  | RestoreWallet restore_request "string list option" string string
  | GetWalletRecoveryPhraseFromCertificate string string
  | DeleteWallet string bool

text \<open>
  The actions the store triggers and the calls it makes on other stores, in the order
  they are made. \<open>GoToWalletPage i p\<close> is \<^verbatim>\<open>router.goToRoute\<close> for the page \<open>p\<close> of
  wallet \<open>i\<close> (\<^verbatim>\<open>ROUTES.WALLETS.PAGE\<close> with \<^verbatim>\<open>{ id, page }\<close>).
\<close>

datatype effect =
    ApiCall api_call
  | GoToWalletPage string string
  | GoToAddWalletRoute
  | CloseActiveDialog
  | RefreshWalletsLocalData
  | RefreshAddresses
  | RefreshTransactionData
  | RefreshWalletsDataSuccess
  | UnsetWalletLocalData string
  | UnsetHardwareWalletLocalData string

subsection \<open>The other stores and the utilities\<close>

text \<open>
  \<^verbatim>\<open>stores.app.currentRoute\<close> is read through \<^verbatim>\<open>matchRoute\<close> only
  (\<^verbatim>\<open>utils/routing\<close> and \<^verbatim>\<open>ROUTES\<close> are not among the files), against three patterns:
  \<^verbatim>\<open>ROUTES.WALLETS.ADD\<close>, \<^verbatim>\<open>ROUTES.WALLETS.ROOT\<close> and
  \<^verbatim>\<open>`${ROUTES.WALLETS.ROOT}/:id(*page)`\<close>. The route is modelled by the three results;
  \<open>walletRouteMatch\<close> is \<^verbatim>\<open>match.id\<close> when the third pattern matches.
\<close>

record CurrentRoute =
  isWalletAddPage :: bool
  isRootRoute :: bool
  walletRouteMatch :: "string option"

record ExtendedPublicKey =
  publicKeyHex :: string
  chainCodeHex :: string

record Stores =
  currentRoute :: CurrentRoute
  isConnected :: bool
  lastGeneratedAddress :: "string option"
  hardwareWalletsConnectionData :: "string \<Rightarrow> ExtendedPublicKey option"
  addressesRequests :: "string list"
  transactionsRequests :: "string list"

text \<open>
  Functions and constants the store imports from files that are not among the sources,
  taken as parameters: the builtin \<^verbatim>\<open>parseInt(_, 10)\<close>, \<^verbatim>\<open>formattedWalletAmount\<close>,
  \<^verbatim>\<open>bechEncode\<close> for \<^verbatim>\<open>bech32EncodePublicKey(Buffer.from(_, 'hex'))\<close> (a falsy
  result is \<open>None\<close>), \<^verbatim>\<open>Wallet.update\<close>, \<^verbatim>\<open>getScrambledInput\<close> and the length of
  \<^verbatim>\<open>RESTORE_WALLET_STEPS\<close>.
\<close>

record Externals =
  parseInt10 :: "string \<Rightarrow> jsnumber"
  formattedWalletAmount :: "int \<Rightarrow> string"
  bechEncode :: "string \<Rightarrow> string option"
  walletUpdate :: "Wallet \<Rightarrow> Wallet \<Rightarrow> Wallet"
  getScrambledInput :: "string list \<Rightarrow> string \<times> string"
  restoreWalletStepsLength :: nat

subsection \<open>The observable fields\<close>

datatype WalletKind = DAEDALUS | YOROI | HARDWARE | OtherWalletKind string

datatype WalletDaedalusKind =
  BYRON_27_WORD | SHELLEY_15_WORD | SHELLEY_24_WORD | OtherDaedalusKind string

datatype WalletYoroiKind = BYRON_15_WORD | OtherYoroiKind string

datatype WalletHardwareKind = LEDGER | OtherHardwareKind string

datatype LocalizableError = WalletPaperWalletOpenPdfError

datatype CertificateTemplate = TemplateNull | TemplateFalse | Template string

record WalletsStore =
  walletsRequest :: "Wallet list Request"
  deleteWalletRequest :: "bool Request"
  sendMoneyRequest :: "string Request"
  getWalletRecoveryPhraseFromCertificateRequest :: "string list Request"
  restoreDaedalusRequest :: "Wallet Request"
  restoreByronRandomWalletRequest :: "Wallet Request"
  restoreByronIcarusWalletRequest :: "Wallet Request"
  restoreByronTrezorWalletRequest :: "Wallet Request"
  restoreByronLedgerWalletRequest :: "Wallet Request"
  active :: "Wallet option"
  activeValue :: "string option"
  activePublicKey :: "string option"
  createWalletStep :: "int option"
  createWalletShowAbortConfirmation :: bool
  restoreWalletStep :: "int option"
  restoreWalletShowAbortConfirmation :: bool
  walletKind :: "WalletKind option"
  walletKindDaedalus :: "WalletDaedalusKind option"
  walletKindYoroi :: "WalletYoroiKind option"
  walletKindHardware :: "WalletHardwareKind option"
  mnemonics :: "string list"
  walletName :: string
  spendingPassword :: string
  repeatPassword :: string
  restoredWallet :: "Wallet option"
  isDeleting :: bool
  walletCertificatePassword :: "string option"
  walletCertificateAddress :: "string option"
  walletCertificateRecoveryPhrase :: "string option"
  generatingCertificateInProgress :: bool
  generatingCertificateError :: "LocalizableError option"
  certificateStep :: "int option"
  certificateTemplate :: CertificateTemplate
  pollingBlocked :: bool
  stores :: Stores
  triggered :: "effect list"

text \<open>How a method ends: it returns, or it throws (an async method: its promise rejects).\<close>

datatype outcome = Returned | Threw error

definition trigger :: "effect \<Rightarrow> WalletsStore \<Rightarrow> WalletsStore" where
  "trigger e s = s\<lparr>triggered := triggered s @ [e]\<rparr>"

section \<open>WalletsStore: the getters\<close>

definition allWallets :: "WalletsStore \<Rightarrow> Wallet list" where
  "allWallets s =
     (case result (walletsRequest s) of
        Some r \<Rightarrow> filter (\<lambda>w. \<not> isLegacy w) r
      | None \<Rightarrow> [])"

definition allLegacyWallets :: "WalletsStore \<Rightarrow> Wallet list" where
  "allLegacyWallets s =
     (case result (walletsRequest s) of
        Some r \<Rightarrow> filter (\<lambda>w. isLegacy w) r
      | None \<Rightarrow> [])"

definition all :: "WalletsStore \<Rightarrow> Wallet list" where
  "all s = allWallets s @ allLegacyWallets s"

definition hasActiveWallet :: "WalletsStore \<Rightarrow> bool" where
  "hasActiveWallet s = (active s \<noteq> None)"

definition hasLoadedWallets :: "WalletsStore \<Rightarrow> bool" where
  "hasLoadedWallets s = wasExecuted (walletsRequest s)"

definition hasAnyWallets :: "WalletsStore \<Rightarrow> bool" where
  "hasAnyWallets s =
     (case result (walletsRequest s) of
        None \<Rightarrow> False
      | Some r \<Rightarrow> wasExecuted (walletsRequest s) \<and> length r > 0)"

definition hasAnyLoaded :: "WalletsStore \<Rightarrow> bool" where
  "hasAnyLoaded s = (length (all s) > 0)"

definition getWalletById :: "WalletsStore \<Rightarrow> string \<Rightarrow> Wallet option" where
  "getWalletById s i = find (\<lambda>w. id' w = i) (all s)"

definition canRedirectToWallet :: "WalletsStore \<Rightarrow> bool" where
  "canRedirectToWallet s =
     (isRootRoute (currentRoute (stores s)) \<or> isWalletAddPage (currentRoute (stores s)))"

definition restoreRequest :: "WalletsStore \<Rightarrow> restore_request" where
  "restoreRequest s =
     (case walletKind s of
        Some DAEDALUS \<Rightarrow>
          (if walletKindDaedalus s = Some SHELLEY_15_WORD
              \<or> walletKindDaedalus s = Some SHELLEY_24_WORD
           then RestoreDaedalusRequest
           else RestoreByronRandomWalletRequest)
      | Some YOROI \<Rightarrow>
          (if walletKindYoroi s = Some BYRON_15_WORD
           then RestoreByronIcarusWalletRequest
           else RestoreDaedalusRequest)
      | Some HARDWARE \<Rightarrow>
          (if walletKindHardware s = Some LEDGER
           then RestoreByronLedgerWalletRequest
           else RestoreByronTrezorWalletRequest)
      | _ \<Rightarrow> RestoreDaedalusRequest)"

section \<open>WalletsStore: the active wallet\<close>

definition goToWalletRoute :: "string \<Rightarrow> WalletsStore \<Rightarrow> WalletsStore" where
  "goToWalletRoute walletId s = trigger (GoToWalletPage walletId ''summary'') s"

definition unsetActiveWallet :: "WalletsStore \<Rightarrow> WalletsStore" where
  "unsetActiveWallet s =
     s\<lparr>active := None, activeValue := None, activePublicKey := None,
       stores := (stores s)\<lparr>lastGeneratedAddress := None\<rparr>\<rparr>"

text \<open>
  \<^verbatim>\<open>_setActiveWallet\<close>. \<^verbatim>\<open>isEqual\<close> is deep equality, here the equality of the
  records. When the wallet that becomes active is a hardware wallet without connection data,
  \<^verbatim>\<open>activePublicKey\<close> is left as it was.
\<close>

definition setActiveWallet :: "Externals \<Rightarrow> string \<Rightarrow> WalletsStore \<Rightarrow> WalletsStore" where
  "setActiveWallet ext walletId s =
     (if hasAnyWallets s then
        (let activeWalletId = map_option id' (active s);
             newActiveWallet = find (\<lambda>wallet. id' wallet = walletId) (all s);
             s1 = (case newActiveWallet of
                     Some n \<Rightarrow>
                       (if (case active s of None \<Rightarrow> True | Some a \<Rightarrow> \<not> isNotResponding a)
                           \<and> isNotResponding n
                        then trigger (GoToWalletPage (id' n) ''summary'') s
                        else s)
                   | None \<Rightarrow> s);
             hasActiveWalletBeenChanged = (activeWalletId \<noteq> Some walletId);
             hasActiveWalletBeenUpdated = (active s \<noteq> newActiveWallet)
         in if hasActiveWalletBeenChanged then
              (let s2 = s1\<lparr>active := newActiveWallet,
                          stores := (stores s1)\<lparr>lastGeneratedAddress := None\<rparr>\<rparr>
               in case newActiveWallet of
                    None \<Rightarrow> s2
                  | Some a \<Rightarrow>
                      (let s3 = s2\<lparr>activeValue := Some (formattedWalletAmount ext (amount a))\<rparr>
                       in if isHardwareWallet a then
                            (case hardwareWalletsConnectionData (stores s3) (id' a) of
                               None \<Rightarrow> s3
                             | Some extendedPublicKey \<Rightarrow>
                                 s3\<lparr>activePublicKey :=
                                      bechEncode ext (publicKeyHex extendedPublicKey
                                                      @ chainCodeHex extendedPublicKey)\<rparr>)
                          else s3\<lparr>activePublicKey := None\<rparr>))
            else if hasActiveWalletBeenUpdated then
              (case (active s1, newActiveWallet) of
                 (Some a, Some n) \<Rightarrow> s1\<lparr>active := Some (walletUpdate ext a n)\<rparr>
               | _ \<Rightarrow> s1)
            else s1)
      else s)"

text \<open>
  \<^verbatim>\<open>_updateActiveWalletOnRouteChanges\<close>. \<^verbatim>\<open>this.all[0].id\<close> throws a TypeError on an
  empty list; the branches that read it are reached with a list that is not empty.
\<close>

definition firstWalletId :: "WalletsStore \<Rightarrow> error + string" where
  "firstWalletId s = (case all s of [] \<Rightarrow> Inl TypeError | w # ws \<Rightarrow> Inr (id' w))"

definition goToActiveWalletRoute :: "WalletsStore \<Rightarrow> WalletsStore" where
  "goToActiveWalletRoute s =
     (case active s of Some a \<Rightarrow> goToWalletRoute (id' a) s | None \<Rightarrow> s)"

definition updateActiveWalletOnRouteChanges ::
  "Externals \<Rightarrow> WalletsStore \<Rightarrow> outcome \<times> WalletsStore" where
  "updateActiveWalletOnRouteChanges ext s =
     (let hasAnyWalletLoaded = hasAnyLoaded s;
          isWalletAddPage = isWalletAddPage (currentRoute (stores s))
      in if isWalletAddPage \<or> \<not> hasAnyWalletLoaded then (Returned, unsetActiveWallet s)
         else
           (case walletRouteMatch (currentRoute (stores s)) of
              Some matchId \<Rightarrow>
                (case find (\<lambda>w. id' w = matchId) (all s) of
                   Some walletForCurrentRoute \<Rightarrow>
                     (Returned, setActiveWallet ext (id' walletForCurrentRoute) s)
                 | None \<Rightarrow>
                     (if hasAnyWalletLoaded then
                        (case firstWalletId s of
                           Inl e \<Rightarrow> (Threw e, s)
                         | Inr firstId \<Rightarrow>
                             (Returned, goToActiveWalletRoute (setActiveWallet ext firstId s)))
                      else (Returned, s)))
            | None \<Rightarrow>
                (if canRedirectToWallet s then
                   (if \<not> hasActiveWallet s \<and> hasAnyWalletLoaded then
                      (case firstWalletId s of
                         Inl e \<Rightarrow> (Threw e, s)
                       | Inr firstId \<Rightarrow>
                           (Returned, goToActiveWalletRoute (setActiveWallet ext firstId s)))
                    else (Returned, goToActiveWalletRoute s))
                 else (Returned, s))))"

section \<open>WalletsStore: polling\<close>

text \<open>
  \<^verbatim>\<open>_pausePolling\<close> first awaits a wallets request that is in flight; \<open>inflight\<close> is
  the backend's answer to it, which settles the request. A request is awaited as a
  promise: when it is rejected the \<^verbatim>\<open>await\<close> throws, and \<^verbatim>\<open>_pausePolling\<close> rejects
  before it sets the flag.
\<close>

definition pausePolling ::
  "Wallet list response \<Rightarrow> WalletsStore \<Rightarrow> outcome \<times> WalletsStore" where
  "pausePolling inflight s =
     (if isExecuting (walletsRequest s) then
        (let s1 = s\<lparr>walletsRequest := Request_settle inflight (walletsRequest s)\<rparr>
         in case inflight of
              Rejected \<Rightarrow> (Threw RequestRejected, s1)
            | Resolved v \<Rightarrow> (Returned, s1\<lparr>pollingBlocked := True\<rparr>))
      else (Returned, s\<lparr>pollingBlocked := True\<rparr>))"

definition resumePolling :: "WalletsStore \<Rightarrow> WalletsStore" where
  "resumePolling s = s\<lparr>pollingBlocked := False\<rparr>"

text \<open>
  \<^verbatim>\<open>refreshWalletsData\<close> runs up to its first \<^verbatim>\<open>await\<close> when it is called
  (\<open>refreshWalletsData_start\<close>) and goes on when the backend has answered
  (\<open>refreshWalletsData_resume\<close>). A caller that does not await it sees the first part
  only.
\<close>

datatype refresh_state = RefreshReturned | RefreshAwaiting

definition refreshWalletsData_start :: "WalletsStore \<Rightarrow> refresh_state \<times> WalletsStore" where
  "refreshWalletsData_start s =
     (if pollingBlocked s then (RefreshReturned, s)
      else if isConnected (stores s) then
        (RefreshAwaiting,
         trigger (ApiCall GetWallets) (s\<lparr>walletsRequest := Request_execute (walletsRequest s)\<rparr>))
      else (RefreshReturned, s))"

definition refreshWalletsData_resume ::
  "Externals \<Rightarrow> Wallet list response \<Rightarrow> WalletsStore \<Rightarrow> outcome \<times> WalletsStore" where
  "refreshWalletsData_resume ext answer s =
     (let s1 = s\<lparr>walletsRequest := Request_settle answer (walletsRequest s)\<rparr>
      in case answer of
           Rejected \<Rightarrow> (Threw RequestRejected, s1)
         | Resolved None \<Rightarrow> (Returned, s1)
         | Resolved (Some res) \<Rightarrow>
             (let walletIds = map id' (filter (\<lambda>w. syncStateStatus w \<noteq> NOT_RESPONDING) res);
                  s2 = trigger RefreshWalletsLocalData s1;
                  s3 = (case active s2 of
                          Some a \<Rightarrow> setActiveWallet ext (id' a) s2
                        | None \<Rightarrow> s2);
                  s4 = trigger RefreshAddresses
                         (s3\<lparr>stores := (stores s3)\<lparr>addressesRequests := walletIds\<rparr>\<rparr>);
                  s5 = trigger RefreshTransactionData
                         (s4\<lparr>stores := (stores s4)\<lparr>transactionsRequests := walletIds\<rparr>\<rparr>)
              in (Returned, trigger RefreshWalletsDataSuccess s5)))"

definition refreshWalletsData ::
  "Externals \<Rightarrow> Wallet list response \<Rightarrow> WalletsStore \<Rightarrow> outcome \<times> WalletsStore" where
  "refreshWalletsData ext answer s =
     (case refreshWalletsData_start s of
        (RefreshReturned, s1) \<Rightarrow> (Returned, s1)
      | (RefreshAwaiting, s1) \<Rightarrow> refreshWalletsData_resume ext answer s1)"

section \<open>WalletsStore: the wallets list\<close>

text \<open>lodash \<^verbatim>\<open>findIndex\<close>: the index of the first element that satisfies, or -1.\<close>

fun findIndex :: "('a \<Rightarrow> bool) \<Rightarrow> 'a list \<Rightarrow> int" where
  "findIndex P [] = - 1"
| "findIndex P (x # xs) =
     (if P x then 0 else (let i = findIndex P xs in if i < 0 then - 1 else i + 1))"

text \<open>\<^verbatim>\<open>result.splice(index, 0, wallet)\<close> and \<^verbatim>\<open>result.splice(index, 1)\<close>, for an index from 0.\<close>

definition splice_insert :: "nat \<Rightarrow> 'a \<Rightarrow> 'a list \<Rightarrow> 'a list" where
  "splice_insert index x xs = take index xs @ [x] @ drop index xs"

definition splice_remove :: "nat \<Rightarrow> 'a list \<Rightarrow> 'a list" where
  "splice_remove index xs = take index xs @ drop (Suc index) xs"

text \<open>The function \<^verbatim>\<open>_patchWalletRequestWithNewWallet\<close> hands to \<^verbatim>\<open>patch\<close>.\<close>

definition patchWithNewWallet :: "Wallet \<Rightarrow> Wallet list \<Rightarrow> Wallet list" where
  "patchWithNewWallet wallet res =
     (if find (\<lambda>w. id' w = id' wallet) res = None then
        (if isLegacy wallet then res @ [wallet]
         else
           (let index = findIndex isLegacy res
            in if index \<ge> 0 then splice_insert (nat index) wallet res else res @ [wallet]))
      else res)"

text \<open>
  \<^verbatim>\<open>patch\<close> applies the function to the request's result, in place. On a request without
  a result the function reads \<^verbatim>\<open>push\<close> from \<^verbatim>\<open>null\<close>: a TypeError.
\<close>

definition patchWalletRequestWithNewWallet ::
  "Wallet \<Rightarrow> WalletsStore \<Rightarrow> outcome \<times> WalletsStore" where
  "patchWalletRequestWithNewWallet wallet s =
     (case result (walletsRequest s) of
        None \<Rightarrow> (Threw TypeError, s)
      | Some res \<Rightarrow>
          (Returned,
           s\<lparr>walletsRequest := (walletsRequest s)\<lparr>result := Some (patchWithNewWallet wallet res)\<rparr>\<rparr>))"

text \<open>
  The change \<^verbatim>\<open>_deleteWallet\<close> makes to the list: the wallet is looked up in \<^verbatim>\<open>all\<close>,
  and the element at its index in \<^verbatim>\<open>all\<close> is spliced out of the request's result. A
  wallet that is found is a wallet of the result, so the request has one; the index is
  that of a wallet of \<^verbatim>\<open>all\<close> and is not negative.
\<close>

definition indexOf :: "'a list \<Rightarrow> 'a \<Rightarrow> int" where
  "indexOf xs x = findIndex (\<lambda>y. y = x) xs"

definition deleteFromWalletsRequest :: "string \<Rightarrow> WalletsStore \<Rightarrow> WalletsStore" where
  "deleteFromWalletsRequest walletId s =
     (case getWalletById s walletId of
        None \<Rightarrow> s
      | Some walletToDelete \<Rightarrow>
          (let indexOfWalletToDelete = indexOf (all s) walletToDelete
           in case result (walletsRequest s) of
                None \<Rightarrow> s
              | Some res \<Rightarrow>
                  s\<lparr>walletsRequest :=
                      (walletsRequest s)\<lparr>result :=
                         Some (splice_remove (nat indexOfWalletToDelete) res)\<rparr>\<rparr>))"

section \<open>WalletsStore: the wizards\<close>

subsection \<open>Create wallet\<close>

definition createWalletBegin :: "WalletsStore \<Rightarrow> WalletsStore" where
  "createWalletBegin s =
     s\<lparr>createWalletStep := Some 0, createWalletShowAbortConfirmation := False\<rparr>"

definition createWalletChangeStep :: "bool \<Rightarrow> WalletsStore \<Rightarrow> WalletsStore" where
  "createWalletChangeStep isBack s =
     (let currrentCreateWalletStep = (case createWalletStep s of None \<Rightarrow> 0 | Some n \<Rightarrow> n)
      in s\<lparr>createWalletStep :=
             Some (if isBack then currrentCreateWalletStep - 1
                   else currrentCreateWalletStep + 1),
           createWalletShowAbortConfirmation := False\<rparr>)"

definition createWalletClose :: "WalletsStore \<Rightarrow> WalletsStore" where
  "createWalletClose s =
     s\<lparr>createWalletStep := None, createWalletShowAbortConfirmation := False\<rparr>"

definition createWalletAbort :: "WalletsStore \<Rightarrow> WalletsStore" where
  "createWalletAbort s = s\<lparr>createWalletShowAbortConfirmation := True\<rparr>"

subsection \<open>Restore wallet\<close>

definition restoreWalletBegin :: "WalletsStore \<Rightarrow> WalletsStore" where
  "restoreWalletBegin s =
     s\<lparr>restoreWalletStep := Some 0, restoreWalletShowAbortConfirmation := False\<rparr>"

definition restoreWalletResetRequests :: "WalletsStore \<Rightarrow> WalletsStore" where
  "restoreWalletResetRequests s =
     s\<lparr>restoreDaedalusRequest := Request_reset (restoreDaedalusRequest s),
       restoreByronIcarusWalletRequest := Request_reset (restoreByronIcarusWalletRequest s),
       restoreByronLedgerWalletRequest := Request_reset (restoreByronLedgerWalletRequest s),
       restoreByronRandomWalletRequest := Request_reset (restoreByronRandomWalletRequest s),
       restoreByronTrezorWalletRequest := Request_reset (restoreByronTrezorWalletRequest s),
       getWalletRecoveryPhraseFromCertificateRequest :=
         Request_reset (getWalletRecoveryPhraseFromCertificateRequest s)\<rparr>"

definition restoreWalletResetData :: "WalletsStore \<Rightarrow> WalletsStore" where
  "restoreWalletResetData s =
     s\<lparr>restoreWalletStep := None,
       restoreWalletShowAbortConfirmation := False,
       restoredWallet := None,
       walletKind := None,
       walletKindDaedalus := None,
       walletKindYoroi := None,
       walletKindHardware := None,
       mnemonics := [],
       walletName := [],
       spendingPassword := [],
       repeatPassword := []\<rparr>"

definition restoreWalletChangeStep :: "bool \<Rightarrow> WalletsStore \<Rightarrow> WalletsStore" where
  "restoreWalletChangeStep isBack s =
     (let currrentRestoreWalletStep = (case restoreWalletStep s of None \<Rightarrow> 0 | Some n \<Rightarrow> n);
          s1 = restoreWalletResetRequests s;
          s2 = (if restoreWalletStep s1 = None then restoreWalletResetData s1 else s1)
      in s2\<lparr>restoreWalletStep :=
              Some (if isBack then currrentRestoreWalletStep - 1
                    else currrentRestoreWalletStep + 1),
            restoreWalletShowAbortConfirmation := False\<rparr>)"

text \<open>The constant \<^verbatim>\<open>shouldDisplayAbortAlert\<close> of \<^verbatim>\<open>_restoreWalletClose\<close>.\<close>

definition shouldDisplayAbortAlert :: "Externals \<Rightarrow> WalletsStore \<Rightarrow> bool" where
  "shouldDisplayAbortAlert ext s =
     ((length (mnemonics s) \<noteq> 0 \<or> length (walletName s) \<noteq> 0
       \<or> length (spendingPassword s) \<noteq> 0)
      \<and> (case restoreWalletStep s of
            None \<Rightarrow> False
          | Some n \<Rightarrow> n < int (restoreWalletStepsLength ext) - 1))"

definition restoreWalletClose :: "Externals \<Rightarrow> WalletsStore \<Rightarrow> WalletsStore" where
  "restoreWalletClose ext s =
     (if shouldDisplayAbortAlert ext s \<and> \<not> restoreWalletShowAbortConfirmation s
      then s\<lparr>restoreWalletShowAbortConfirmation := True\<rparr>
      else trigger CloseActiveDialog (restoreWalletResetData (restoreWalletResetRequests s)))"

definition restoreWalletCancelClose :: "WalletsStore \<Rightarrow> WalletsStore" where
  "restoreWalletCancelClose s = s\<lparr>restoreWalletShowAbortConfirmation := False\<rparr>"

text \<open>Executing, settling and reading the restore request that \<^verbatim>\<open>restoreRequest\<close> selects.\<close>

definition mapRestoreRequest ::
  "restore_request \<Rightarrow> (Wallet Request \<Rightarrow> Wallet Request) \<Rightarrow> WalletsStore \<Rightarrow> WalletsStore" where
  "mapRestoreRequest which f s =
     (case which of
        RestoreDaedalusRequest \<Rightarrow> s\<lparr>restoreDaedalusRequest := f (restoreDaedalusRequest s)\<rparr>
      | RestoreByronRandomWalletRequest \<Rightarrow>
          s\<lparr>restoreByronRandomWalletRequest := f (restoreByronRandomWalletRequest s)\<rparr>
      | RestoreByronIcarusWalletRequest \<Rightarrow>
          s\<lparr>restoreByronIcarusWalletRequest := f (restoreByronIcarusWalletRequest s)\<rparr>
      | RestoreByronLedgerWalletRequest \<Rightarrow>
          s\<lparr>restoreByronLedgerWalletRequest := f (restoreByronLedgerWalletRequest s)\<rparr>
      | RestoreByronTrezorWalletRequest \<Rightarrow>
          s\<lparr>restoreByronTrezorWalletRequest := f (restoreByronTrezorWalletRequest s)\<rparr>)"

text \<open>
  \<^verbatim>\<open>_getUnscrambledMnemonics\<close>: the answer of the certificate request is the recovery
  phrase; a rejection is thrown on.
\<close>

definition getUnscrambledMnemonics ::
  "Externals \<Rightarrow> string list \<Rightarrow> string list response \<Rightarrow> WalletsStore
     \<Rightarrow> (error + string list option) \<times> WalletsStore" where
  "getUnscrambledMnemonics ext ms answer s =
     (let (certificatePassphrase, scrambledInput) = getScrambledInput ext ms;
          s1 = trigger (ApiCall (GetWalletRecoveryPhraseFromCertificate
                                   certificatePassphrase scrambledInput))
                 (s\<lparr>getWalletRecoveryPhraseFromCertificateRequest :=
                      Request_execute (getWalletRecoveryPhraseFromCertificateRequest s)\<rparr>)
      in case answer of
           Rejected \<Rightarrow>
             (Inl RequestRejected,
              s1\<lparr>getWalletRecoveryPhraseFromCertificateRequest :=
                   Request_settle answer (getWalletRecoveryPhraseFromCertificateRequest s1)\<rparr>)
         | Resolved v \<Rightarrow>
             (Inr v,
              s1\<lparr>getWalletRecoveryPhraseFromCertificateRequest :=
                   Request_reset (getWalletRecoveryPhraseFromCertificateRequest s1)\<rparr>))"

text \<open>
  \<^verbatim>\<open>_restore\<close>. \<open>inflight\<close> answers a wallets request in flight when polling is paused,
  \<open>unscrambled\<close> the certificate request of a 27-word restoration, \<open>restored\<close> the restore
  request. When \<^verbatim>\<open>_pausePolling\<close> or the certificate request rejects, \<^verbatim>\<open>_restore\<close>
  rejects there, outside its \<^verbatim>\<open>try\<close>. A restore request that is rejected or brings no
  wallet ends in the \<^verbatim>\<open>catch\<close>, which resumes polling.
\<close>

definition restoreExecute ::
  "string list option \<Rightarrow> Wallet response \<Rightarrow> WalletsStore \<Rightarrow> WalletsStore" where
  "restoreExecute recoveryPhrase restored s =
     (let request = restoreRequest s;
          s1 = trigger (ApiCall (RestoreWallet request recoveryPhrase
                                   (walletName s) (spendingPassword s)))
                 (mapRestoreRequest request Request_execute s);
          s2 = mapRestoreRequest request (Request_settle restored) s1
      in case restored of
           Resolved (Some w) \<Rightarrow> s2\<lparr>restoredWallet := Some w, restoreWalletStep := Some 3\<rparr>
         | _ \<Rightarrow> resumePolling s2)"

definition restore ::
  "Externals \<Rightarrow> Wallet list response \<Rightarrow> string list response \<Rightarrow> Wallet response
     \<Rightarrow> WalletsStore \<Rightarrow> outcome \<times> WalletsStore" where
  "restore ext inflight unscrambled restored s =
     (case pausePolling inflight s of
        (Threw e, s1) \<Rightarrow> (Threw e, s1)
      | (Returned, s1) \<Rightarrow>
          (let s2 = restoreWalletResetRequests s1
           in if walletKind s2 = Some DAEDALUS \<and> walletKindDaedalus s2 = Some BYRON_27_WORD then
                (let s3 = s2\<lparr>getWalletRecoveryPhraseFromCertificateRequest :=
                              Request_reset (getWalletRecoveryPhraseFromCertificateRequest s2)\<rparr>
                 in case getUnscrambledMnemonics ext (mnemonics s3) unscrambled s3 of
                      (Inl e, s4) \<Rightarrow> (Threw e, s4)
                    | (Inr recoveryPhrase, s4) \<Rightarrow>
                        (Returned, restoreExecute recoveryPhrase restored s4))
              else (Returned, restoreExecute (Some (mnemonics s2)) restored s2)))"

text \<open>\<^verbatim>\<open>_restoreWalletEnd\<close>; the refresh it starts is not awaited.\<close>

definition restoreWalletEnd :: "WalletsStore \<Rightarrow> outcome \<times> WalletsStore" where
  "restoreWalletEnd s =
     (let s1 = resumePolling s
      in case restoredWallet s1 of
           None \<Rightarrow> (Returned, s1)
         | Some w \<Rightarrow>
             (case patchWalletRequestWithNewWallet w s1 of
                (Threw e, s2) \<Rightarrow> (Threw e, s2)
              | (Returned, s2) \<Rightarrow>
                  (let s3 = goToWalletRoute (id' w) s2;
                       s4 = snd (refreshWalletsData_start s3)
                   in (Returned, restoreWalletResetData (restoreWalletResetRequests s4)))))"

subsection \<open>Paper wallet certificate\<close>

text \<open>
  \<^verbatim>\<open>_updateGeneratingCertificateError\<close>; the argument is the \<^verbatim>\<open>syscall\<close> of the error
  it is given, if it is given one that has it.
\<close>

definition updateGeneratingCertificateError :: "string option \<Rightarrow> WalletsStore \<Rightarrow> WalletsStore" where
  "updateGeneratingCertificateError syscall s =
     s\<lparr>generatingCertificateError :=
         (if syscall = Some ''open'' then Some WalletPaperWalletOpenPdfError else None)\<rparr>"

definition updateCertificateStep :: "bool \<Rightarrow> WalletsStore \<Rightarrow> WalletsStore" where
  "updateCertificateStep isBack s =
     (let s1 = updateGeneratingCertificateError None s;
          currrentCertificateStep = (case certificateStep s1 of None \<Rightarrow> 0 | Some n \<Rightarrow> n)
      in s1\<lparr>certificateStep :=
              Some (if isBack then currrentCertificateStep - 1 else currrentCertificateStep + 1)\<rparr>)"

definition resetCertificateData :: "WalletsStore \<Rightarrow> WalletsStore" where
  "resetCertificateData s =
     updateGeneratingCertificateError None
       (s\<lparr>walletCertificatePassword := None,
          walletCertificateAddress := None,
          walletCertificateRecoveryPhrase := None,
          generatingCertificateInProgress := False,
          certificateTemplate := TemplateFalse,
          certificateStep := None\<rparr>)"

definition closeCertificateGeneration :: "WalletsStore \<Rightarrow> WalletsStore" where
  "closeCertificateGeneration s = resetCertificateData (trigger CloseActiveDialog s)"

definition setCertificateTemplate :: "string \<Rightarrow> WalletsStore \<Rightarrow> WalletsStore" where
  "setCertificateTemplate selectedTemplate s =
     updateCertificateStep False (s\<lparr>certificateTemplate := Template selectedTemplate\<rparr>)"

definition finishCertificate :: "WalletsStore \<Rightarrow> WalletsStore" where
  "finishCertificate s = closeCertificateGeneration (updateGeneratingCertificateError None s)"

section \<open>WalletsStore: sending money\<close>

text \<open>lodash \<^verbatim>\<open>get(assetsAmounts, index, 0)\<close>.\<close>

definition getAmount :: "jsnumber list option \<Rightarrow> nat \<Rightarrow> jsnumber" where
  "getAmount assetsAmounts index =
     (case assetsAmounts of
        None \<Rightarrow> Number 0
      | Some xs \<Rightarrow> if index < length xs then xs ! index else Number 0)"

record SendMoneyParams =
  receiver :: string
  sendAmount :: string
  passphrase :: string
  assets :: "WalletSummaryAsset list option"
  assetsAmounts :: "string list option"

definition formattedAssets :: "Externals \<Rightarrow> SendMoneyParams \<Rightarrow> FormattedAsset list option" where
  "formattedAssets ext p =
     (let amounts = map_option (map (parseInt10 ext)) (assetsAmounts p)
      in case assets p of
           None \<Rightarrow> None
         | Some as \<Rightarrow>
             (if length as \<noteq> 0 then
                Some (map (\<lambda>(a, index).
                             \<lparr>policy_id = policyId a, asset_name = assetName a,
                              quantity = getAmount amounts index\<rparr>)
                        (zip as [0 ..< length as]))
              else None))"

text \<open>
  \<^verbatim>\<open>_sendMoney\<close>; \<open>sendAmount\<close> is its parameter \<^verbatim>\<open>amount\<close>. \<open>sent\<close> is the backend's
  answer to the transaction request. The refresh that follows is not awaited.
\<close>

definition sendMoney ::
  "Externals \<Rightarrow> SendMoneyParams \<Rightarrow> string response \<Rightarrow> WalletsStore \<Rightarrow> outcome \<times> WalletsStore"
where
  "sendMoney ext p sent s =
     (case active s of
        None \<Rightarrow> (Threw (Error ''Active wallet required before sending.''), s)
      | Some wallet \<Rightarrow>
          (let s1 = trigger (ApiCall (CreateTransaction (receiver p) (parseInt10 ext (sendAmount p))
                                        (passphrase p) (id' wallet) (isLegacy wallet)
                                        (formattedAssets ext p)))
                      (s\<lparr>sendMoneyRequest := Request_execute (sendMoneyRequest s)\<rparr>);
               s2 = s1\<lparr>sendMoneyRequest := Request_settle sent (sendMoneyRequest s1)\<rparr>
           in case sent of
                Rejected \<Rightarrow> (Threw RequestRejected, s2)
              | Resolved v \<Rightarrow>
                  (let s3 = snd (refreshWalletsData_start s2);
                       s4 = trigger CloseActiveDialog s3;
                       s5 = s4\<lparr>sendMoneyRequest := Request_reset (sendMoneyRequest s4)\<rparr>
                   in (Returned, goToWalletRoute (id' wallet) s5))))"

section \<open>What the store is compared with\<close>

text \<open>
  In a list of wallets, no legacy wallet comes before a wallet that is not legacy: all
  non-legacy wallets precede all legacy wallets.
\<close>

definition legacyLast :: "Wallet list \<Rightarrow> bool" where
  "legacyLast ws = sorted_wrt (\<lambda>a b. isLegacy a \<longrightarrow> isLegacy b) ws"

text \<open>
  The wallets request holds a result only once it was executed. The store only reads this
  of a \<^verbatim>\<open>Request\<close>; the operations on the request that are modelled keep it.
\<close>

definition walletsRequestExecuted :: "WalletsStore \<Rightarrow> bool" where
  "walletsRequestExecuted s =
     (result (walletsRequest s) \<noteq> None \<longrightarrow> wasExecuted (walletsRequest s))"

text \<open>The value of a wizard step, \<^verbatim>\<open>null\<close> read as 0 (\<^verbatim>\<open>step || 0\<close>).\<close>

definition stepValue :: "int option \<Rightarrow> int" where
  "stepValue step = (case step of None \<Rightarrow> 0 | Some n \<Rightarrow> n)"

text \<open>
  A step after an operation, against the step before it: one more, one less, or reset to
  \<^verbatim>\<open>null\<close>.
\<close>

definition linearOrReset :: "int option \<Rightarrow> int option \<Rightarrow> bool" where
  "linearOrReset old new =
     (new = Some (stepValue old + 1) \<or> new = Some (stepValue old - 1) \<or> new = None)"

section \<open>Concrete states\<close>

text \<open>The store as its field initialisers leave it, beside other stores that hold nothing.\<close>

definition initialStores :: Stores where
  "initialStores =
     \<lparr>currentRoute = \<lparr>isWalletAddPage = False, isRootRoute = False, walletRouteMatch = None\<rparr>,
      isConnected = True,
      lastGeneratedAddress = None,
      hardwareWalletsConnectionData = (\<lambda>walletId. None),
      addressesRequests = [],
      transactionsRequests = []\<rparr>"

definition initialStore :: WalletsStore where
  "initialStore =
     \<lparr>walletsRequest = Request_new,
      deleteWalletRequest = Request_new,
      sendMoneyRequest = Request_new,
      getWalletRecoveryPhraseFromCertificateRequest = Request_new,
      restoreDaedalusRequest = Request_new,
      restoreByronRandomWalletRequest = Request_new,
      restoreByronIcarusWalletRequest = Request_new,
      restoreByronTrezorWalletRequest = Request_new,
      restoreByronLedgerWalletRequest = Request_new,
      active = None,
      activeValue = None,
      activePublicKey = None,
      createWalletStep = None,
      createWalletShowAbortConfirmation = False,
      restoreWalletStep = None,
      restoreWalletShowAbortConfirmation = False,
      walletKind = None,
      walletKindDaedalus = None,
      walletKindYoroi = None,
      walletKindHardware = None,
      mnemonics = [],
      walletName = [],
      spendingPassword = [],
      repeatPassword = [],
      restoredWallet = None,
      isDeleting = False,
      walletCertificatePassword = None,
      walletCertificateAddress = None,
      walletCertificateRecoveryPhrase = None,
      generatingCertificateInProgress = False,
      generatingCertificateError = None,
      certificateStep = None,
      certificateTemplate = TemplateNull,
      pollingBlocked = False,
      stores = initialStores,
      triggered = []\<rparr>"

text \<open>A responding software wallet with the given id, legacy or not.\<close>

definition exampleWallet :: "string \<Rightarrow> bool \<Rightarrow> Wallet" where
  "exampleWallet i legacy =
     \<lparr>id' = i, name = i, amount = 0, isLegacy = legacy, isHardwareWallet = False,
      isNotResponding = False, syncStateStatus = OtherSyncStateStatus ''ready''\<rparr>"

text \<open>The store after the backend has answered the wallets request with the given list.\<close>

definition loadedStore :: "Wallet list \<Rightarrow> WalletsStore" where
  "loadedStore ws =
     initialStore\<lparr>walletsRequest := \<lparr>result = Some ws, wasExecuted = True, isExecuting = False\<rparr>\<rparr>"


text \<open>The store with \<^verbatim>\<open>stores.app.currentRoute\<close> at the given route.\<close>

definition atRoute :: "CurrentRoute \<Rightarrow> WalletsStore \<Rightarrow> WalletsStore" where
  "atRoute r s = s\<lparr>stores := (stores s)\<lparr>currentRoute := r\<rparr>\<rparr>"

text \<open>
  The utilities for the concrete runs. \<open>decimalParseInt\<close> is \<^verbatim>\<open>parseInt(_, 10)\<close> on
  a string of which a number holds the value exactly: blanks, a sign, then the digits up
  to the first character that is none.
\<close>

definition digitValue :: "char \<Rightarrow> int option" where
  "digitValue c = map_of (zip ''0123456789'' [0, 1, 2, 3, 4, 5, 6, 7, 8, 9]) c"

fun digitsValue :: "int \<Rightarrow> string \<Rightarrow> int" where
  "digitsValue acc [] = acc"
| "digitsValue acc (c # cs) =
     (case digitValue c of None \<Rightarrow> acc | Some d \<Rightarrow> digitsValue (10 * acc + d) cs)"

definition decimalParseInt :: "string \<Rightarrow> jsnumber" where
  "decimalParseInt s =
     (let t = dropWhile (\<lambda>c. c = CHR '' '') s;
          negative = (case t of c # cs \<Rightarrow> c = CHR ''-'' | [] \<Rightarrow> False);
          ds = (case t of c # cs \<Rightarrow> if c = CHR ''-'' \<or> c = CHR ''+'' then cs else t | [] \<Rightarrow> [])
      in case ds of
           [] \<Rightarrow> NaN
         | c # cs \<Rightarrow>
             (if digitValue c = None then NaN
              else Number ((if negative then - 1 else 1) * digitsValue 0 ds)))"

definition plainExternals :: Externals where
  "plainExternals =
     \<lparr>parseInt10 = decimalParseInt,
      formattedWalletAmount = (\<lambda>n. if n = 0 then ''0'' else ''some''),
      bechEncode = (\<lambda>hex. if hex = [] then None else Some (''acct_xvk'' @ hex)),
      walletUpdate = (\<lambda>a n. n),
      getScrambledInput = (\<lambda>ms. (concat (drop 18 ms), concat (take 18 ms))),
      restoreWalletStepsLength = 4\<rparr>"

section \<open>Properties of the search\<close>

lemma pattern_items_escaped:
  "isSyntaxCharacter c \<Longrightarrow>
   pattern_items (backslash # c # rest) = map_option ((#) (PatternCharacter c)) (pattern_items rest)"
  by simp

lemma pattern_items_plain:
  "\<not> isSyntaxCharacter c \<Longrightarrow>
   pattern_items (c # rest) = map_option ((#) (PatternCharacter c)) (pattern_items rest)"
proof (cases rest)
  case Nil
  assume "\<not> isSyntaxCharacter c"
  moreover from this have "c \<noteq> backslash"
    by (auto simp: isSyntaxCharacter_def syntaxCharacters_def)
  ultimately show ?thesis using Nil by simp
next
  case (Cons d ds)
  assume "\<not> isSyntaxCharacter c"
  moreover from this have "c \<noteq> backslash"
    by (auto simp: isSyntaxCharacter_def syntaxCharacters_def)
  ultimately show ?thesis using Cons by simp
qed

lemma pattern_items_escapeRegExp:
  "pattern_items (escapeRegExp s) = Some (map PatternCharacter s)"
proof (induction s)
  case Nil
  show ?case by (simp add: escapeRegExp_def)
next
  case (Cons c s)
  have step: "escapeRegExp (c # s) =
      (if isSyntaxCharacter c then backslash # c # escapeRegExp s else c # escapeRegExp s)"
    by (simp add: escapeRegExp_def)
  show ?case
  proof (cases "isSyntaxCharacter c")
    case True
    then show ?thesis
      using Cons.IH step pattern_items_escaped [of c "escapeRegExp s"] by simp
  next
    case False
    then show ?thesis
      using Cons.IH step pattern_items_plain [of c "escapeRegExp s"] by simp
  qed
qed

lemma literal_pattern_chars: "literal_pattern (map PatternCharacter s) = Some s"
  by (induction s) simp_all

lemma RegExp_i_escapeRegExp:
  "RegExp_i canon engine (escapeRegExp s) = Inr (literal_test canon s)"
  by (simp add: RegExp_i_def pattern_items_escapeRegExp literal_pattern_chars)

lemma match_here_iff:
  "match_here canon p s \<longleftrightarrow> (\<exists>m post. s = m @ post \<and> map canon m = map canon p)"
proof (induction canon p s rule: match_here.induct)
  case (1 canon s)
  show ?case by simp
next
  case (2 canon p ps)
  show ?case by auto
next
  case (3 canon p ps c cs)
  show ?case
  proof
    assume "match_here canon (p # ps) (c # cs)"
    then have "canon p = canon c" and "match_here canon ps cs" by simp_all
    then obtain m post where "cs = m @ post" "map canon m = map canon ps"
      using "3.IH" by blast
    then have "c # cs = (c # m) @ post \<and> map canon (c # m) = map canon (p # ps)"
      using \<open>canon p = canon c\<close> by simp
    then show "\<exists>m post. c # cs = m @ post \<and> map canon m = map canon (p # ps)"
      by blast
  next
    assume "\<exists>m post. c # cs = m @ post \<and> map canon m = map canon (p # ps)"
    then obtain m post where m: "c # cs = m @ post" "map canon m = map canon (p # ps)"
      by blast
    then obtain m' where m': "m = c # m'"
      by (cases m) auto
    with m have "cs = m' @ post" "map canon m' = map canon ps" "canon c = canon p"
      by simp_all
    then show "match_here canon (p # ps) (c # cs)"
      using "3.IH" by auto
  qed
qed

lemma literal_test_iff: "literal_test canon p t \<longleftrightarrow> ci_substring canon p t"
proof (induction t)
  case Nil
  show ?case
    by (auto simp: ci_substring_def match_here_iff)
next
  case (Cons c cs)
  show ?case
  proof
    assume "literal_test canon p (c # cs)"
    then consider "match_here canon p (c # cs)" | "literal_test canon p cs" by auto
    then show "ci_substring canon p (c # cs)"
    proof cases
      case 1
      then obtain m post where "c # cs = m @ post" "map canon m = map canon p"
        using match_here_iff by blast
      then have "c # cs = [] @ m @ post \<and> map canon m = map canon p" by simp
      then show ?thesis unfolding ci_substring_def by blast
    next
      case 2
      then obtain pre m post where "cs = pre @ m @ post" "map canon m = map canon p"
        using Cons.IH unfolding ci_substring_def by blast
      then have "c # cs = (c # pre) @ m @ post \<and> map canon m = map canon p" by simp
      then show ?thesis unfolding ci_substring_def by blast
    qed
  next
    assume "ci_substring canon p (c # cs)"
    then obtain pre m post where pm: "c # cs = pre @ m @ post" "map canon m = map canon p"
      unfolding ci_substring_def by blast
    show "literal_test canon p (c # cs)"
    proof (cases pre)
      case Nil
      with pm have "match_here canon p (c # cs)"
        using match_here_iff by fastforce
      then show ?thesis by simp
    next
      case (Cons x pre')
      with pm have "cs = pre' @ m @ post" by simp
      with pm have "ci_substring canon p cs" unfolding ci_substring_def by blast
      then show ?thesis using Cons.IH by simp
    qed
  qed
qed

lemma filter_lodash_total:
  "filter_lodash (\<lambda>x. Inr (P x)) xs = Inr (filter P xs)"
  by (induction xs) simp_all

lemma ci_substring_empty: "ci_substring canon [] t"
  unfolding ci_substring_def by (rule exI [of _ "[]"], rule exI [of _ "[]"], rule exI [of _ t]) simp

lemma onSearchItemsDropdown_filter:
  "onSearchItemsDropdown canon engine searchValue options =
     Inr (filter (\<lambda>option. literal_test canon searchValue (ToString (label option))
                          \<or> literal_test canon searchValue (ToString (detail option))
                          \<or> literal_test canon searchValue (ToString (optionValue option)))
            options)"
  by (simp add: onSearchItemsDropdown_def RegExp_i_escapeRegExp filter_lodash_total)

text \<open>
  What \<^verbatim>\<open>onSearchItemsDropdown\<close> computes. For every search value and every list of
  options it returns, without throwing and whatever the pattern language would make of the
  search value, the options of which the label, the detail or the value, converted to a
  string as \<^verbatim>\<open>test\<close> converts it, contains the search value as a case-insensitive
  literal substring, in the order of the input; for the empty search value it returns
  every option. The conversion is what makes an absent field read as the text
  \<^verbatim>\<open>undefined\<close> and a \<^verbatim>\<open>null\<close> field as the text \<^verbatim>\<open>null\<close>.
\<close>

lemma onSearchItemsDropdown_literal_search:
  "onSearchItemsDropdown canon engine searchValue options =
     Inr (filter (\<lambda>option. ci_substring canon searchValue (ToString (label option))
                          \<or> ci_substring canon searchValue (ToString (detail option))
                          \<or> ci_substring canon searchValue (ToString (optionValue option)))
            options)
   \<and> onSearchItemsDropdown canon engine [] options = Inr options"
proof
  show "onSearchItemsDropdown canon engine searchValue options =
     Inr (filter (\<lambda>option. ci_substring canon searchValue (ToString (label option))
                          \<or> ci_substring canon searchValue (ToString (detail option))
                          \<or> ci_substring canon searchValue (ToString (optionValue option)))
            options)"
    by (simp add: onSearchItemsDropdown_filter literal_test_iff)
  show "onSearchItemsDropdown canon engine [] options = Inr options"
    by (simp add: onSearchItemsDropdown_filter literal_test_iff ci_substring_empty)
qed

text \<open>
  Claim C7 fails of the code on an option without a detail. The claim has
  \<^verbatim>\<open>onSearchItemsDropdown\<close> return exactly the options whose label, detail or value
  contains the search value. The code returns the option labelled \<^verbatim>\<open>ADA\<close> with value
  \<^verbatim>\<open>1\<close> and no detail both for the search value \<^verbatim>\<open>e\<close> and for the search value
  \<^verbatim>\<open>undefined\<close>, although neither its label nor its value contains either of them:
  \<^verbatim>\<open>regex.test(detail)\<close> tests the text \<^verbatim>\<open>undefined\<close> in place of the absent detail.
  An option with the same label and value and the detail \<^verbatim>\<open>Cardano\<close> is not returned
  for \<^verbatim>\<open>e\<close>.
\<close>

theorem onSearchItemsDropdown_absent_field:
  "onSearchItemsDropdown ascii_canon (\<lambda>its. None) ''e''
     [\<lparr>label = JSString ''ADA'', detail = JSUndefined, optionValue = JSString ''1''\<rparr>]
     = Inr [\<lparr>label = JSString ''ADA'', detail = JSUndefined, optionValue = JSString ''1''\<rparr>]
   \<and> onSearchItemsDropdown ascii_canon (\<lambda>its. None) ''undefined''
     [\<lparr>label = JSString ''ADA'', detail = JSUndefined, optionValue = JSString ''1''\<rparr>]
     = Inr [\<lparr>label = JSString ''ADA'', detail = JSUndefined, optionValue = JSString ''1''\<rparr>]
   \<and> onSearchItemsDropdown ascii_canon (\<lambda>its. None) ''e''
     [\<lparr>label = JSString ''ADA'', detail = JSString ''Cardano'', optionValue = JSString ''1''\<rparr>]
     = Inr []"
  by (simp add: onSearchItemsDropdown_filter ToString_def ascii_canon_def)

section \<open>Properties of the confirmation dialog\<close>

text \<open>
  Claim C8. The dialog has a confirm (Send) button, and it is disabled whenever the
  wallet is a software wallet and the passphrase field is not valid, whenever the wallet
  is a hardware wallet and the device status is not
  \<^verbatim>\<open>VERIFYING_TRANSACTION_SUCCEEDED\<close>, and whenever the build is a flight candidate and
  the terms are not accepted.
\<close>

theorem confirmButton_disabled:
  "\<exists>b. confirmButton props state passphraseField = Some b
      \<and> (\<not> dialogIsHardwareWallet props \<and> \<not> isValid passphraseField \<longrightarrow> disabled b)
      \<and> (dialogIsHardwareWallet props \<and> hwDeviceStatus props \<noteq> VERIFYING_TRANSACTION_SUCCEEDED
           \<longrightarrow> disabled b)
      \<and> (isFlight props \<and> \<not> areTermsAccepted state \<longrightarrow> disabled b)"
  by (auto simp: confirmButton_def dialog_actions_def)

text \<open>One dialog for each of the three conditions of C8, the button disabled in each.\<close>

theorem confirmButton_disabled_witness:
  "map_option disabled
     (confirmButton
        \<lparr>dialogIsHardwareWallet = False, hwDeviceStatus = VERIFYING_TRANSACTION_SUCCEEDED,
         isFlight = False, isSubmitting = False\<rparr>
        \<lparr>areTermsAccepted = True\<rparr> \<lparr>fieldValue = [], isValid = False\<rparr>) = Some True
   \<and> map_option disabled
     (confirmButton
        \<lparr>dialogIsHardwareWallet = True, hwDeviceStatus = OtherHwDeviceStatus ''connecting'',
         isFlight = False, isSubmitting = False\<rparr>
        \<lparr>areTermsAccepted = True\<rparr> \<lparr>fieldValue = [], isValid = True\<rparr>) = Some True
   \<and> map_option disabled
     (confirmButton
        \<lparr>dialogIsHardwareWallet = False, hwDeviceStatus = VERIFYING_TRANSACTION_SUCCEEDED,
         isFlight = True, isSubmitting = False\<rparr>
        \<lparr>areTermsAccepted = False\<rparr> \<lparr>fieldValue = ''secret'', isValid = True\<rparr>) = Some True"
  using
    confirmButton_disabled
      [of "\<lparr>dialogIsHardwareWallet = False, hwDeviceStatus = VERIFYING_TRANSACTION_SUCCEEDED,
            isFlight = False, isSubmitting = False\<rparr>"
          "\<lparr>areTermsAccepted = True\<rparr>" "\<lparr>fieldValue = [], isValid = False\<rparr>"]
    confirmButton_disabled
      [of "\<lparr>dialogIsHardwareWallet = True, hwDeviceStatus = OtherHwDeviceStatus ''connecting'',
            isFlight = False, isSubmitting = False\<rparr>"
          "\<lparr>areTermsAccepted = True\<rparr>" "\<lparr>fieldValue = [], isValid = True\<rparr>"]
    confirmButton_disabled
      [of "\<lparr>dialogIsHardwareWallet = False, hwDeviceStatus = VERIFYING_TRANSACTION_SUCCEEDED,
            isFlight = True, isSubmitting = False\<rparr>"
          "\<lparr>areTermsAccepted = False\<rparr>" "\<lparr>fieldValue = ''secret'', isValid = True\<rparr>"]
  by auto

section \<open>Properties of the wallets list\<close>

lemma findIndex_takeWhile:
  "findIndex P xs = (if \<exists>x\<in>set xs. P x then int (length (takeWhile (\<lambda>x. \<not> P x) xs)) else - 1)"
  by (induction xs) (auto simp: Let_def)

lemma splice_insert_takeWhile:
  "splice_insert (length (takeWhile Q xs)) x xs = takeWhile Q xs @ [x] @ dropWhile Q xs"
  by (simp add: splice_insert_def takeWhile_eq_take [symmetric] dropWhile_eq_drop [symmetric])

lemma find_None_ids: "find (\<lambda>w. id' w = i) ws = None \<longleftrightarrow> i \<notin> id' ` set ws"
  by (auto simp: find_None_iff)

lemma takeWhile_no_legacy:
  "\<not> (\<exists>x\<in>set res. isLegacy x) \<Longrightarrow> takeWhile (\<lambda>w. \<not> isLegacy w) res = res \<and> dropWhile (\<lambda>w. \<not> isLegacy w) res = []"
  by (induction res) auto


lemma patchWithNewWallet_eq:
  "patchWithNewWallet wallet res =
     (if id' wallet \<in> id' ` set res then res
      else if isLegacy wallet then res @ [wallet]
      else takeWhile (\<lambda>w. \<not> isLegacy w) res @ [wallet] @ dropWhile (\<lambda>w. \<not> isLegacy w) res)"
proof (cases "\<exists>x\<in>set res. isLegacy x")
  case True
  then show ?thesis
    by (simp add: patchWithNewWallet_def find_None_ids findIndex_takeWhile Let_def
        splice_insert_takeWhile)
next
  case False
  have tw: "takeWhile (\<lambda>w. \<not> isLegacy w) res = res"
    and dw: "dropWhile (\<lambda>w. \<not> isLegacy w) res = []"
    using takeWhile_no_legacy [OF False] by simp_all
  have fi: "findIndex isLegacy res = - 1"
    using False by (simp add: findIndex_takeWhile)
  show ?thesis
    by (simp add: patchWithNewWallet_def find_None_ids fi tw dw)
qed

lemma legacyLast_append:
  "legacyLast (xs @ ys) \<longleftrightarrow>
     legacyLast xs \<and> legacyLast ys \<and> (\<forall>x\<in>set xs. \<forall>y\<in>set ys. isLegacy x \<longrightarrow> isLegacy y)"
  by (simp add: legacyLast_def sorted_wrt_append)

lemma legacyLast_single: "legacyLast [w]"
  by (simp add: legacyLast_def)

lemma legacyLast_Cons:
  "legacyLast (w # ws) \<longleftrightarrow> (isLegacy w \<longrightarrow> (\<forall>y\<in>set ws. isLegacy y)) \<and> legacyLast ws"
  by (simp add: legacyLast_def)


lemma dropWhile_legacy_Cons:
  "dropWhile (\<lambda>w. \<not> isLegacy w) (w # ws) =
     (if isLegacy w then w # ws else dropWhile (\<lambda>w. \<not> isLegacy w) ws)"
  by simp

lemma legacyLast_dropWhile:
  "legacyLast ws \<Longrightarrow> y \<in> set (dropWhile (\<lambda>w. \<not> isLegacy w) ws) \<Longrightarrow> isLegacy y"
proof (induction ws)
  case Nil
  then show ?case by simp
next
  case (Cons w ws)
  show ?case
  proof (cases "isLegacy w")
    case True
    with Cons.prems(1) have "\<forall>y\<in>set ws. isLegacy y"
      by (simp add: legacyLast_Cons)
    moreover from True Cons.prems(2) have "y = w \<or> y \<in> set ws"
      by (simp only: dropWhile_legacy_Cons if_True) auto
    ultimately show ?thesis using True by blast
  next
    case False
    with Cons.prems have "legacyLast ws" and "y \<in> set (dropWhile (\<lambda>w. \<not> isLegacy w) ws)"
      by (simp_all add: legacyLast_Cons)
    then show ?thesis by (rule Cons.IH)
  qed
qed

lemma legacyLast_takeWhile: "legacyLast (takeWhile (\<lambda>w. \<not> isLegacy w) ws)"
proof (induction ws)
  case Nil
  show ?case by (simp add: legacyLast_def)
next
  case (Cons w ws)
  have "\<And>x. x \<in> set (takeWhile (\<lambda>w. \<not> isLegacy w) ws) \<Longrightarrow> \<not> isLegacy x"
    by (auto dest: set_takeWhileD)
  with Cons show ?case by (simp add: legacyLast_Cons legacyLast_def)
qed

lemma legacyLast_all_legacy: "(\<And>y. y \<in> set ws \<Longrightarrow> isLegacy y) \<Longrightarrow> legacyLast ws"
proof (induction ws)
  case Nil
  show ?case by (simp add: legacyLast_def)
next
  case (Cons w ws)
  have "legacyLast ws" by (rule Cons.IH) (simp add: Cons.prems)
  moreover have "\<forall>y\<in>set ws. isLegacy y" using Cons.prems by simp
  ultimately show ?case by (simp only: legacyLast_Cons) blast
qed

lemma legacyLast_insert:
  assumes "legacyLast res" and "\<not> isLegacy wallet"
  shows "legacyLast (takeWhile (\<lambda>w. \<not> isLegacy w) res @ [wallet]
           @ dropWhile (\<lambda>w. \<not> isLegacy w) res)"
proof -
  let ?t = "takeWhile (\<lambda>w. \<not> isLegacy w) res" and ?d = "dropWhile (\<lambda>w. \<not> isLegacy w) res"
  have d: "\<And>y. y \<in> set ?d \<Longrightarrow> isLegacy y"
    using assms(1) by (rule legacyLast_dropWhile)
  have t: "\<And>x. x \<in> set ?t \<Longrightarrow> \<not> isLegacy x"
    by (auto dest: set_takeWhileD)
  have ld: "legacyLast ?d" using d by (rule legacyLast_all_legacy)
  have lwd: "legacyLast (wallet # ?d)"
    using ld assms(2) by (simp only: legacyLast_Cons) blast
  have "\<forall>x\<in>set ?t. \<forall>y\<in>set ([wallet] @ ?d). isLegacy x \<longrightarrow> isLegacy y"
    using t by blast
  then show ?thesis
    using legacyLast_takeWhile [of res] lwd
    by (simp only: legacyLast_append append_Cons append_Nil)
qed

lemma legacyLast_snoc_legacy:
  assumes "legacyLast res" and "isLegacy wallet"
  shows "legacyLast (res @ [wallet])"
  using assms by (simp only: legacyLast_append legacyLast_single) simp

lemma legacyLast_patch: "legacyLast res \<Longrightarrow> legacyLast (patchWithNewWallet wallet res)"
  by (simp add: patchWithNewWallet_eq legacyLast_insert legacyLast_snoc_legacy
      del: append_Cons append_Nil append.simps)

lemma legacyLast_filter: "legacyLast (filter (\<lambda>w. \<not> isLegacy w) res @ filter (\<lambda>w. isLegacy w) res)"
proof -
  have "legacyLast (filter (\<lambda>w. \<not> isLegacy w) res)"
    by (induction res) (simp_all add: legacyLast_def)
  moreover have "legacyLast (filter (\<lambda>w. isLegacy w) res)"
    by (rule legacyLast_all_legacy) simp
  ultimately show ?thesis
    by (simp only: legacyLast_append) simp
qed

lemma legacyLast_filter_eq:
  "legacyLast res \<longleftrightarrow> filter (\<lambda>w. \<not> isLegacy w) res @ filter (\<lambda>w. isLegacy w) res = res"
proof
  assume "legacyLast res"
  then show "filter (\<lambda>w. \<not> isLegacy w) res @ filter (\<lambda>w. isLegacy w) res = res"
  proof (induction res)
    case Nil
    show ?case by simp
  next
    case (Cons w ws)
    from Cons.prems have l: "legacyLast ws" and a: "isLegacy w \<longrightarrow> (\<forall>y\<in>set ws. isLegacy y)"
      by (simp_all add: legacyLast_Cons)
    show ?case
    proof (cases "isLegacy w")
      case True
      with a have all: "\<forall>y\<in>set ws. isLegacy y" by blast
      then have "filter (\<lambda>w. \<not> isLegacy w) ws = []" and "filter (\<lambda>w. isLegacy w) ws = ws"
        by (simp_all add: filter_empty_conv filter_id_conv)
      with True show ?thesis by simp
    next
      case False
      with Cons.IH [OF l] show ?thesis by simp
    qed
  qed
next
  assume "filter (\<lambda>w. \<not> isLegacy w) res @ filter (\<lambda>w. isLegacy w) res = res"
  then show "legacyLast res"
    using legacyLast_filter [of res] by simp
qed

lemma legacyLast_remove: "legacyLast res \<Longrightarrow> legacyLast (splice_remove i res)"
proof -
  assume a: "legacyLast res"
  have "res = take i res @ drop i res" by simp
  with a have "legacyLast (take i res @ drop i res)" by simp
  then have 1: "legacyLast (take i res)" and 2: "legacyLast (drop i res)"
    and 3: "\<forall>x\<in>set (take i res). \<forall>y\<in>set (drop i res). isLegacy x \<longrightarrow> isLegacy y"
    by (simp_all only: legacyLast_append) blast+
  have "drop i res = take 1 (drop i res) @ drop (Suc i) res"
    by (metis append_take_drop_id drop_drop plus_1_eq_Suc)
  then have sub: "set (drop (Suc i) res) \<subseteq> set (drop i res)"
    by (metis Un_iff set_append subsetI)
  have "legacyLast (take 1 (drop i res) @ drop (Suc i) res)"
    using 2 \<open>drop i res = take 1 (drop i res) @ drop (Suc i) res\<close> by simp
  then have 4: "legacyLast (drop (Suc i) res)"
    by (simp only: legacyLast_append)
  show ?thesis
    unfolding splice_remove_def
    using 1 4 3 sub by (simp only: legacyLast_append) blast
qed

lemma all_eq:
  "result (walletsRequest s) = Some res \<Longrightarrow>
   all s = filter (\<lambda>w. \<not> isLegacy w) res @ filter (\<lambda>w. isLegacy w) res"
  by (simp add: all_def allWallets_def allLegacyWallets_def)

lemma patchWalletRequestWithNewWallet_eq:
  "result (walletsRequest s) = Some res \<Longrightarrow>
   patchWalletRequestWithNewWallet wallet s =
     (Returned, s\<lparr>walletsRequest := (walletsRequest s)\<lparr>result := Some (patchWithNewWallet wallet res)\<rparr>\<rparr>)"
  by (simp add: patchWalletRequestWithNewWallet_def)

lemma deleteFromWalletsRequest_legacyLast:
  "result (walletsRequest s) = Some res \<Longrightarrow>
   \<exists>res'. result (walletsRequest (deleteFromWalletsRequest walletId s)) = Some res'
     \<and> (legacyLast res \<longrightarrow> legacyLast res')"
  by (simp add: deleteFromWalletsRequest_def Let_def legacyLast_remove split: option.split)

lemma mset_all: "mset (filter (\<lambda>w. \<not> isLegacy w) res @ filter (\<lambda>w. isLegacy w) res) = mset res"
  by (induction res) simp_all

lemma mset_patchWithNewWallet:
  "mset (patchWithNewWallet wallet res) =
     (if id' wallet \<in> id' ` set res then mset res else add_mset wallet (mset res))"
proof -
  have "mset (takeWhile (\<lambda>w. \<not> isLegacy w) res) + mset (dropWhile (\<lambda>w. \<not> isLegacy w) res) = mset res"
    by (metis mset_append takeWhile_dropWhile_id)
  then show ?thesis
    by (simp add: patchWithNewWallet_eq)
qed

text \<open>
  Claim C6. The changes the store makes to the wallets list keep all non-legacy wallets
  before all legacy wallets. On a request that has a result,
  \<^verbatim>\<open>_patchWalletRequestWithNewWallet\<close> returns and leaves the list as it is when the
  wallet's id occurs in it; otherwise it appends a legacy wallet at the end and inserts a
  non-legacy wallet immediately before the first legacy wallet (at the end when there is
  none); a list with the legacy wallets last stays so. The same holds for the removal
  \<^verbatim>\<open>_deleteWallet\<close> makes. The \<^verbatim>\<open>all\<close> getter is the non-legacy wallets of the
  result followed by its legacy wallets, each in the order of the result.
\<close>

theorem wallets_list_non_legacy_first:
  assumes "result (walletsRequest s) = Some res"
  shows "(\<exists>res'. patchWalletRequestWithNewWallet wallet s =
            (Returned, s\<lparr>walletsRequest := (walletsRequest s)\<lparr>result := Some res'\<rparr>\<rparr>)
          \<and> (id' wallet \<in> id' ` set res \<longrightarrow> res' = res)
          \<and> (id' wallet \<notin> id' ` set res \<and> isLegacy wallet \<longrightarrow> res' = res @ [wallet])
          \<and> (id' wallet \<notin> id' ` set res \<and> \<not> isLegacy wallet \<longrightarrow>
                res' = takeWhile (\<lambda>w. \<not> isLegacy w) res @ [wallet]
                         @ dropWhile (\<lambda>w. \<not> isLegacy w) res)
          \<and> (legacyLast res \<longrightarrow> legacyLast res'))
      \<and> (\<exists>res'. result (walletsRequest (deleteFromWalletsRequest walletId s)) = Some res'
          \<and> (legacyLast res \<longrightarrow> legacyLast res'))
      \<and> all s = filter (\<lambda>w. \<not> isLegacy w) res @ filter (\<lambda>w. isLegacy w) res
      \<and> legacyLast (all s)"
proof (intro conjI)
  show "\<exists>res'. patchWalletRequestWithNewWallet wallet s =
            (Returned, s\<lparr>walletsRequest := (walletsRequest s)\<lparr>result := Some res'\<rparr>\<rparr>)
          \<and> (id' wallet \<in> id' ` set res \<longrightarrow> res' = res)
          \<and> (id' wallet \<notin> id' ` set res \<and> isLegacy wallet \<longrightarrow> res' = res @ [wallet])
          \<and> (id' wallet \<notin> id' ` set res \<and> \<not> isLegacy wallet \<longrightarrow>
                res' = takeWhile (\<lambda>w. \<not> isLegacy w) res @ [wallet]
                         @ dropWhile (\<lambda>w. \<not> isLegacy w) res)
          \<and> (legacyLast res \<longrightarrow> legacyLast res')"
    using patchWalletRequestWithNewWallet_eq [OF assms, of wallet]
      legacyLast_patch [of res wallet]
    by (intro exI [of _ "patchWithNewWallet wallet res"]) (simp add: patchWithNewWallet_eq)
  show "\<exists>res'. result (walletsRequest (deleteFromWalletsRequest walletId s)) = Some res'
          \<and> (legacyLast res \<longrightarrow> legacyLast res')"
    using assms by (rule deleteFromWalletsRequest_legacyLast)
  show a: "all s = filter (\<lambda>w. \<not> isLegacy w) res @ filter (\<lambda>w. isLegacy w) res"
    using assms by (rule all_eq)
  show "legacyLast (all s)"
    by (simp only: a legacyLast_filter)
qed

text \<open>
  C6 on the list of a non-legacy wallet \<^verbatim>\<open>N1\<close> and a legacy wallet \<^verbatim>\<open>L1\<close>: a new
  non-legacy wallet goes between them, a new legacy wallet goes last, a wallet with the id
  \<^verbatim>\<open>N1\<close> is not added; and \<^verbatim>\<open>all\<close> on the result \<^verbatim>\<open>L1, N1\<close>.
\<close>

theorem wallets_list_non_legacy_first_witness:
  "patchWalletRequestWithNewWallet (exampleWallet ''N2'' False)
       (loadedStore [exampleWallet ''N1'' False, exampleWallet ''L1'' True])
     = (Returned,
        loadedStore [exampleWallet ''N1'' False, exampleWallet ''N2'' False, exampleWallet ''L1'' True])
   \<and> patchWalletRequestWithNewWallet (exampleWallet ''L2'' True)
       (loadedStore [exampleWallet ''N1'' False, exampleWallet ''L1'' True])
     = (Returned,
        loadedStore [exampleWallet ''N1'' False, exampleWallet ''L1'' True, exampleWallet ''L2'' True])
   \<and> patchWalletRequestWithNewWallet (exampleWallet ''N1'' False)
       (loadedStore [exampleWallet ''N1'' False, exampleWallet ''L1'' True])
     = (Returned, loadedStore [exampleWallet ''N1'' False, exampleWallet ''L1'' True])
   \<and> legacyLast [exampleWallet ''N1'' False, exampleWallet ''L1'' True]
   \<and> legacyLast [exampleWallet ''N1'' False, exampleWallet ''N2'' False, exampleWallet ''L1'' True]
   \<and> all (loadedStore [exampleWallet ''L1'' True, exampleWallet ''N1'' False])
       = [exampleWallet ''N1'' False, exampleWallet ''L1'' True]"
proof -
  let ?s = "loadedStore [exampleWallet ''N1'' False, exampleWallet ''L1'' True]"
  have r: "result (walletsRequest ?s) = Some [exampleWallet ''N1'' False, exampleWallet ''L1'' True]"
    by (simp add: loadedStore_def)
  have r2: "result (walletsRequest (loadedStore [exampleWallet ''L1'' True, exampleWallet ''N1'' False]))
      = Some [exampleWallet ''L1'' True, exampleWallet ''N1'' False]"
    by (simp add: loadedStore_def)
  have l: "legacyLast [exampleWallet ''N1'' False, exampleWallet ''L1'' True]"
    by (simp add: legacyLast_def exampleWallet_def)
  have u: "\<And>x. ?s\<lparr>walletsRequest := (walletsRequest ?s)\<lparr>result := Some x\<rparr>\<rparr> = loadedStore x"
    by (simp add: loadedStore_def)
  show ?thesis
    using wallets_list_non_legacy_first [OF r, of "exampleWallet ''N2'' False"]
      wallets_list_non_legacy_first [OF r, of "exampleWallet ''L2'' True"]
      wallets_list_non_legacy_first [OF r, of "exampleWallet ''N1'' False"]
      wallets_list_non_legacy_first [OF r2] l
    by (simp add: u) (simp add: exampleWallet_def)
qed

text \<open>
  Claim C4, as amended. The store does impose an order, a placement and a uniqueness of
  its own on the wallets list. When the wallets request has a result, \<^verbatim>\<open>all\<close> has
  exactly the wallets of that result, each as often as the result has it, with all
  non-legacy wallets before all legacy wallets, and it is the result itself exactly when
  the result has no legacy wallet before a non-legacy one.
  \<^verbatim>\<open>_patchWalletRequestWithNewWallet\<close> returns with the list as it was when the wallet's
  id occurs in it, and with the wallet added once to the wallets of the list when it does
  not; a list with no legacy wallet before a non-legacy one stays so.
\<close>

theorem wallets_list_mirrors_backend_up_to_order:
  assumes "result (walletsRequest s) = Some res"
  shows "mset (all s) = mset res
      \<and> legacyLast (all s)
      \<and> (all s = res) = legacyLast res
      \<and> (\<exists>res'. patchWalletRequestWithNewWallet wallet s =
            (Returned, s\<lparr>walletsRequest := (walletsRequest s)\<lparr>result := Some res'\<rparr>\<rparr>)
          \<and> (id' wallet \<in> id' ` set res \<longrightarrow> res' = res)
          \<and> (id' wallet \<notin> id' ` set res \<longrightarrow> mset res' = add_mset wallet (mset res))
          \<and> (legacyLast res \<longrightarrow> legacyLast res'))"
proof (intro conjI)
  have a: "all s = filter (\<lambda>w. \<not> isLegacy w) res @ filter (\<lambda>w. isLegacy w) res"
    using assms by (rule all_eq)
  show "mset (all s) = mset res"
    by (simp only: a mset_all)
  show "legacyLast (all s)"
    by (simp only: a legacyLast_filter)
  show "(all s = res) = legacyLast res"
    by (simp only: a legacyLast_filter_eq)
  have p: "id' wallet \<in> id' ` set res \<Longrightarrow> patchWithNewWallet wallet res = res"
    by (simp add: patchWithNewWallet_eq)
  have m: "id' wallet \<notin> id' ` set res \<Longrightarrow>
      mset (patchWithNewWallet wallet res) = add_mset wallet (mset res)"
    by (simp only: mset_patchWithNewWallet if_False)
  have l: "legacyLast res \<Longrightarrow> legacyLast (patchWithNewWallet wallet res)"
    by (rule legacyLast_patch)
  show "\<exists>res'. patchWalletRequestWithNewWallet wallet s =
            (Returned, s\<lparr>walletsRequest := (walletsRequest s)\<lparr>result := Some res'\<rparr>\<rparr>)
          \<and> (id' wallet \<in> id' ` set res \<longrightarrow> res' = res)
          \<and> (id' wallet \<notin> id' ` set res \<longrightarrow> mset res' = add_mset wallet (mset res))
          \<and> (legacyLast res \<longrightarrow> legacyLast res')"
    using patchWalletRequestWithNewWallet_eq [OF assms, of wallet] p m l
    by blast
qed

text \<open>
  C4 as amended, on the result \<^verbatim>\<open>L1, N1\<close>, which has a legacy wallet first: \<^verbatim>\<open>all\<close>
  has its wallets, in another order, the non-legacy one first.
\<close>

theorem wallets_list_mirrors_backend_up_to_order_witness:
  "mset (all (loadedStore [exampleWallet ''L1'' True, exampleWallet ''N1'' False]))
     = mset [exampleWallet ''L1'' True, exampleWallet ''N1'' False]
   \<and> legacyLast (all (loadedStore [exampleWallet ''L1'' True, exampleWallet ''N1'' False]))
   \<and> \<not> legacyLast [exampleWallet ''L1'' True, exampleWallet ''N1'' False]
   \<and> all (loadedStore [exampleWallet ''L1'' True, exampleWallet ''N1'' False])
       \<noteq> [exampleWallet ''L1'' True, exampleWallet ''N1'' False]"
proof -
  have r: "result (walletsRequest (loadedStore [exampleWallet ''L1'' True, exampleWallet ''N1'' False]))
      = Some [exampleWallet ''L1'' True, exampleWallet ''N1'' False]"
    by (simp add: loadedStore_def)
  have l: "\<not> legacyLast [exampleWallet ''L1'' True, exampleWallet ''N1'' False]"
    by (simp add: legacyLast_def exampleWallet_def)
  show ?thesis
    using wallets_list_mirrors_backend_up_to_order [OF r] l by simp
qed

text \<open>
  Claim C4 as it is stated fails: on the backend result \<^verbatim>\<open>L1, N1\<close> the getter \<^verbatim>\<open>all\<close>
  is \<^verbatim>\<open>N1, L1\<close>, an order the response does not have; a wallet with an id that is in
  the list is not added, although it differs from the one in the list; and a new
  non-legacy wallet is placed before the legacy wallet.
\<close>

theorem wallets_list_local_constraints_counterexample:
  "result (walletsRequest (loadedStore [exampleWallet ''L1'' True, exampleWallet ''N1'' False]))
     = Some [exampleWallet ''L1'' True, exampleWallet ''N1'' False]
   \<and> all (loadedStore [exampleWallet ''L1'' True, exampleWallet ''N1'' False])
       = [exampleWallet ''N1'' False, exampleWallet ''L1'' True]
   \<and> patchWalletRequestWithNewWallet ((exampleWallet ''N1'' False)\<lparr>name := ''again''\<rparr>)
       (loadedStore [exampleWallet ''N1'' False])
     = (Returned, loadedStore [exampleWallet ''N1'' False])
   \<and> patchWalletRequestWithNewWallet (exampleWallet ''N2'' False)
       (loadedStore [exampleWallet ''L1'' True])
     = (Returned, loadedStore [exampleWallet ''N2'' False, exampleWallet ''L1'' True])"
  by (simp add: loadedStore_def all_def allWallets_def allLegacyWallets_def exampleWallet_def
      patchWalletRequestWithNewWallet_def patchWithNewWallet_def splice_insert_def)

section \<open>Properties of pausing and restoring\<close>

lemma pausePolling_Returned:
  assumes "pausePolling inflight s = (Returned, s')"
  shows "pollingBlocked s'" and "\<not> isExecuting (walletsRequest s')"
    and "restoreWalletStep s' = restoreWalletStep s"
proof -
  have "pollingBlocked s' \<and> \<not> isExecuting (walletsRequest s')
      \<and> restoreWalletStep s' = restoreWalletStep s"
  proof (cases "isExecuting (walletsRequest s)")
    case False
    with assms have "s' = s\<lparr>pollingBlocked := True\<rparr>"
      by (simp add: pausePolling_def)
    with False show ?thesis by simp
  next
    case True
    show ?thesis
    proof (cases inflight)
      case Rejected
      with True assms show ?thesis by (simp add: pausePolling_def Let_def)
    next
      case (Resolved v)
      with True assms
      have "s' = s\<lparr>walletsRequest := Request_settle (Resolved v) (walletsRequest s),
                    pollingBlocked := True\<rparr>"
        by (simp add: pausePolling_def Let_def)
      then show ?thesis by (simp add: Request_settle_def)
    qed
  qed
  then show "pollingBlocked s'" and "\<not> isExecuting (walletsRequest s')"
    and "restoreWalletStep s' = restoreWalletStep s"
    by simp_all
qed

lemma restoreWalletStep_pausePolling [simp]:
  "restoreWalletStep (snd (pausePolling inflight s)) = restoreWalletStep s"
  by (cases inflight) (simp_all add: pausePolling_def Let_def)

lemma restoreWalletStep_resumePolling [simp]:
  "restoreWalletStep (resumePolling s) = restoreWalletStep s"
  by (simp add: resumePolling_def)

lemma restoreWalletStep_resetRequests [simp]:
  "restoreWalletStep (restoreWalletResetRequests s) = restoreWalletStep s"
  by (simp add: restoreWalletResetRequests_def)

lemma restoreWalletStep_trigger [simp]:
  "restoreWalletStep (trigger e s) = restoreWalletStep s"
  by (simp add: trigger_def)

lemma restoreWalletStep_mapRestoreRequest [simp]:
  "restoreWalletStep (mapRestoreRequest which f s) = restoreWalletStep s"
  by (cases which) (simp_all add: mapRestoreRequest_def)

lemma restoreWalletStep_restoreExecute:
  "restoreWalletStep (restoreExecute phrase restored s) =
     (case restored of Resolved (Some w) \<Rightarrow> Some 3 | _ \<Rightarrow> restoreWalletStep s)"
  by (simp add: restoreExecute_def Let_def split: response.split option.split)

lemma restoreWalletStep_getUnscrambledMnemonics [simp]:
  "restoreWalletStep (snd (getUnscrambledMnemonics ext ms answer s)) = restoreWalletStep s"
  by (simp add: getUnscrambledMnemonics_def Let_def split: response.split prod.split)

lemma pollingBlocked_resetRequests [simp]:
  "pollingBlocked (restoreWalletResetRequests s) = pollingBlocked s"
  by (simp add: restoreWalletResetRequests_def)

lemma pollingBlocked_trigger [simp]: "pollingBlocked (trigger e s) = pollingBlocked s"
  by (simp add: trigger_def)

lemma pollingBlocked_mapRestoreRequest [simp]:
  "pollingBlocked (mapRestoreRequest which f s) = pollingBlocked s"
  by (cases which) (simp_all add: mapRestoreRequest_def)

lemma pollingBlocked_getUnscrambledMnemonics [simp]:
  "pollingBlocked (snd (getUnscrambledMnemonics ext ms answer s)) = pollingBlocked s"
  by (simp add: getUnscrambledMnemonics_def Let_def split: response.split prod.split)


text \<open>
  How \<^verbatim>\<open>_restore\<close> ends: it throws before its \<^verbatim>\<open>try\<close>, with the step as it was, or it
  returns from the \<^verbatim>\<open>try\<close>, which it entered with the step as it was and polling
  blocked.
\<close>

lemma restore_shape:
  "(\<exists>e s1. restore ext inflight unscrambled restored s = (Threw e, s1)
        \<and> restoreWalletStep s1 = restoreWalletStep s)
   \<or> (\<exists>phrase s4. restore ext inflight unscrambled restored s
          = (Returned, restoreExecute phrase restored s4)
        \<and> restoreWalletStep s4 = restoreWalletStep s \<and> pollingBlocked s4)"
proof -
  obtain out s1 where p: "pausePolling inflight s = (out, s1)"
    by (cases "pausePolling inflight s")
  have st1: "restoreWalletStep s1 = restoreWalletStep s"
    using restoreWalletStep_pausePolling [of inflight s] by (simp add: p)
  show ?thesis
  proof (cases out)
    case (Threw e)
    then have "restore ext inflight unscrambled restored s = (Threw e, s1)"
      by (simp add: restore_def p)
    with st1 show ?thesis by blast
  next
    case Returned
    with p have pb1: "pollingBlocked s1"
      using pausePolling_Returned(1) by blast
    let ?s2 = "restoreWalletResetRequests s1"
    let ?s3 = "?s2\<lparr>getWalletRecoveryPhraseFromCertificateRequest :=
                    Request_reset (getWalletRecoveryPhraseFromCertificateRequest ?s2)\<rparr>"
    obtain r s4 where g: "getUnscrambledMnemonics ext (mnemonics ?s2) unscrambled ?s3 = (r, s4)"
      by (cases "getUnscrambledMnemonics ext (mnemonics ?s2) unscrambled ?s3")
    have s4eq: "s4 = snd (getUnscrambledMnemonics ext (mnemonics ?s2) unscrambled ?s3)"
      by (simp only: g snd_conv)
    have "restoreWalletStep s4 = restoreWalletStep ?s3"
      by (simp only: s4eq restoreWalletStep_getUnscrambledMnemonics)
    also have "\<dots> = restoreWalletStep s"
      by (simp add: st1)
    finally have st4: "restoreWalletStep s4 = restoreWalletStep s" .
    have "pollingBlocked s4 = pollingBlocked ?s3"
      by (simp only: s4eq pollingBlocked_getUnscrambledMnemonics)
    also have "\<dots> = True"
      by (simp add: pb1)
    finally have pb4: "pollingBlocked s4" by simp
    show ?thesis
    proof (cases "walletKind ?s2 = Some DAEDALUS \<and> walletKindDaedalus ?s2 = Some BYRON_27_WORD")
      case True
      then have r27: "restore ext inflight unscrambled restored s =
          (case r of Inl e \<Rightarrow> (Threw e, s4)
           | Inr recoveryPhrase \<Rightarrow> (Returned, restoreExecute recoveryPhrase restored s4))"
        using Returned by (simp add: restore_def p Let_def g)
      show ?thesis
      proof (cases r)
        case (Inl e)
        with r27 have "restore ext inflight unscrambled restored s = (Threw e, s4)" by simp
        with st4 show ?thesis by blast
      next
        case (Inr recoveryPhrase)
        with r27 have "restore ext inflight unscrambled restored s
            = (Returned, restoreExecute recoveryPhrase restored s4)" by simp
        with st4 pb4 show ?thesis by blast
      qed
    next
      case False
      then have "restore ext inflight unscrambled restored s =
          (Returned, restoreExecute (Some (mnemonics ?s2)) restored ?s2)"
        using Returned by (auto simp: restore_def p Let_def)
      moreover have "restoreWalletStep ?s2 = restoreWalletStep s" by (simp add: st1)
      moreover have "pollingBlocked ?s2" by (simp add: pb1)
      ultimately show ?thesis by blast
    qed
  qed
qed

lemma restoreWalletStep_restore:
  "restoreWalletStep (snd (restore ext inflight unscrambled restored s)) =
     (case restored of
        Resolved (Some w) \<Rightarrow>
          if fst (restore ext inflight unscrambled restored s) = Returned then Some 3
          else restoreWalletStep s
      | _ \<Rightarrow> restoreWalletStep s)"
  using restore_shape [of ext inflight unscrambled restored s]
  by (auto simp: restoreWalletStep_restoreExecute split: response.split option.split)


lemma restoreWalletStep_patch [simp]:
  "restoreWalletStep (snd (patchWalletRequestWithNewWallet w s)) = restoreWalletStep s"
  by (simp add: patchWalletRequestWithNewWallet_def split: option.split)

lemma restoreWalletStep_refresh_start [simp]:
  "restoreWalletStep (snd (refreshWalletsData_start s)) = restoreWalletStep s"
  by (simp add: refreshWalletsData_start_def)

lemma restoreWalletStep_goToWalletRoute [simp]:
  "restoreWalletStep (goToWalletRoute i s) = restoreWalletStep s"
  by (simp add: goToWalletRoute_def)

lemma restoreWalletEnd_cases:
  "restoreWalletEnd s =
     (case restoredWallet s of
        None \<Rightarrow> (Returned, resumePolling s)
      | Some w \<Rightarrow>
          (case result (walletsRequest s) of
             None \<Rightarrow> (Threw TypeError, resumePolling s)
           | Some res \<Rightarrow>
               (Returned,
                restoreWalletResetData (restoreWalletResetRequests
                  (snd (refreshWalletsData_start
                     (goToWalletRoute (id' w)
                        (snd (patchWalletRequestWithNewWallet w (resumePolling s))))))))))"
  by (simp add: restoreWalletEnd_def Let_def resumePolling_def patchWalletRequestWithNewWallet_def
      split: option.split)

lemma restoreWalletStep_restoreWalletEnd:
  "restoreWalletStep (snd (restoreWalletEnd s)) =
     (if restoredWallet s \<noteq> None \<and> result (walletsRequest s) \<noteq> None then None
      else restoreWalletStep s)"
  by (simp add: restoreWalletEnd_cases restoreWalletResetData_def split: option.split)


lemma restore_example:
  "restore plainExternals Rejected Rejected (Resolved (Some (exampleWallet ''R'' False)))
     (restoreWalletBegin initialStore)
   = (Returned,
      initialStore
        \<lparr>restoreDaedalusRequest :=
           \<lparr>result = Some (exampleWallet ''R'' False), wasExecuted = True, isExecuting = False\<rparr>,
         restoreWalletStep := Some 3,
         restoredWallet := Some (exampleWallet ''R'' False),
         pollingBlocked := True,
         triggered := [ApiCall (RestoreWallet RestoreDaedalusRequest (Some []) [] [])]\<rparr>)"
  by (simp add: restore_def restoreExecute_def restoreWalletBegin_def initialStore_def
      pausePolling_def restoreWalletResetRequests_def Request_new_def Request_reset_def
      Request_execute_def Request_settle_def restoreRequest_def mapRestoreRequest_def trigger_def
      Let_def)


section \<open>Properties of polling\<close>






text \<open>Without the flag a refresh does change the store: it triggers its requests.\<close>

lemma refreshWalletsData_not_blocked:
  "refreshWalletsData plainExternals (Resolved (Some [exampleWallet ''N1'' False])) initialStore
   \<noteq> (Returned, initialStore)"
proof
  assume "refreshWalletsData plainExternals (Resolved (Some [exampleWallet ''N1'' False])) initialStore
   = (Returned, initialStore)"
  then have "triggered (snd (refreshWalletsData plainExternals
      (Resolved (Some [exampleWallet ''N1'' False])) initialStore)) = triggered initialStore"
    by simp
  then show False
    by (simp add: refreshWalletsData_def refreshWalletsData_start_def refreshWalletsData_resume_def
        initialStore_def initialStores_def trigger_def Let_def)
qed

section \<open>Properties of the order of operations\<close>




section \<open>Properties of the wizards\<close>

lemma restoreWalletStep_restoreWalletClose:
  "restoreWalletStep (restoreWalletClose ext s) =
     (if shouldDisplayAbortAlert ext s \<and> \<not> restoreWalletShowAbortConfirmation s
      then restoreWalletStep s else None)"
  by (simp add: restoreWalletClose_def restoreWalletResetData_def)

text \<open>
  Claim C3, as amended. The operations that move a wizard change its step by exactly one:
  \<^verbatim>\<open>_createWalletChangeStep\<close>, \<^verbatim>\<open>_restoreWalletChangeStep\<close> and
  \<^verbatim>\<open>_updateCertificateStep\<close> (also through \<^verbatim>\<open>_setCertificateTemplate\<close>) set the step to
  its current value, \<^verbatim>\<open>null\<close> read as 0, plus one, or minus one when going back.
  \<^verbatim>\<open>_createWalletClose\<close>, \<^verbatim>\<open>_restoreWalletResetData\<close> and \<^verbatim>\<open>_resetCertificateData\<close>
  (also through \<^verbatim>\<open>_closeCertificateGeneration\<close> and \<^verbatim>\<open>_finishCertificate\<close>) set the
  step to \<^verbatim>\<open>null\<close>. \<^verbatim>\<open>_restoreWalletClose\<close> leaves the step as it is when it asks for
  the abort confirmation and sets it to \<^verbatim>\<open>null\<close> otherwise. \<^verbatim>\<open>_restoreWalletEnd\<close> sets
  the step to \<^verbatim>\<open>null\<close> when there is a restored wallet and the wallets request has a
  result, and leaves it as it is otherwise. The other operations set a step to a fixed
  value, whatever it is: \<^verbatim>\<open>_createWalletBegin\<close> and \<^verbatim>\<open>_restoreWalletBegin\<close> to 0, and
  \<^verbatim>\<open>_restore\<close> to 3 when it returns and its restore request has brought a wallet (it
  leaves the step as it is otherwise).
\<close>

theorem wizard_steps_are_counters_with_jumps:
  "createWalletStep (createWalletChangeStep isBack s)
     = Some (stepValue (createWalletStep s) + (if isBack then - 1 else 1))
   \<and> restoreWalletStep (restoreWalletChangeStep isBack s)
     = Some (stepValue (restoreWalletStep s) + (if isBack then - 1 else 1))
   \<and> certificateStep (updateCertificateStep isBack s)
     = Some (stepValue (certificateStep s) + (if isBack then - 1 else 1))
   \<and> certificateStep (setCertificateTemplate selectedTemplate s)
     = Some (stepValue (certificateStep s) + 1)
   \<and> createWalletStep (createWalletClose s) = None
   \<and> restoreWalletStep (restoreWalletResetData s) = None
   \<and> certificateStep (resetCertificateData s) = None
   \<and> certificateStep (closeCertificateGeneration s) = None
   \<and> certificateStep (finishCertificate s) = None
   \<and> restoreWalletStep (restoreWalletClose ext s)
     = (if shouldDisplayAbortAlert ext s \<and> \<not> restoreWalletShowAbortConfirmation s
        then restoreWalletStep s else None)
   \<and> restoreWalletStep (snd (restoreWalletEnd s))
     = (if restoredWallet s \<noteq> None \<and> result (walletsRequest s) \<noteq> None then None
        else restoreWalletStep s)
   \<and> createWalletStep (createWalletBegin s) = Some 0
   \<and> restoreWalletStep (restoreWalletBegin s) = Some 0
   \<and> restoreWalletStep (snd (restore ext inflight unscrambled restored s))
     = (case restored of
          Resolved (Some w) \<Rightarrow>
            if fst (restore ext inflight unscrambled restored s) = Returned then Some 3
            else restoreWalletStep s
        | _ \<Rightarrow> restoreWalletStep s)"
proof (intro conjI)
  show "createWalletStep (createWalletChangeStep isBack s)
     = Some (stepValue (createWalletStep s) + (if isBack then - 1 else 1))"
    by (simp add: createWalletChangeStep_def stepValue_def Let_def)
  show "restoreWalletStep (restoreWalletChangeStep isBack s)
     = Some (stepValue (restoreWalletStep s) + (if isBack then - 1 else 1))"
    by (simp add: restoreWalletChangeStep_def stepValue_def Let_def)
  show "certificateStep (updateCertificateStep isBack s)
     = Some (stepValue (certificateStep s) + (if isBack then - 1 else 1))"
    by (simp add: updateCertificateStep_def updateGeneratingCertificateError_def stepValue_def
        Let_def)
  show "certificateStep (setCertificateTemplate selectedTemplate s)
     = Some (stepValue (certificateStep s) + 1)"
    by (simp add: setCertificateTemplate_def updateCertificateStep_def
        updateGeneratingCertificateError_def stepValue_def Let_def)
  show "createWalletStep (createWalletClose s) = None"
    by (simp add: createWalletClose_def)
  show "restoreWalletStep (restoreWalletResetData s) = None"
    by (simp add: restoreWalletResetData_def)
  show "certificateStep (resetCertificateData s) = None"
    by (simp add: resetCertificateData_def updateGeneratingCertificateError_def)
  show "certificateStep (closeCertificateGeneration s) = None"
    by (simp add: closeCertificateGeneration_def resetCertificateData_def
        updateGeneratingCertificateError_def)
  show "certificateStep (finishCertificate s) = None"
    by (simp add: finishCertificate_def closeCertificateGeneration_def resetCertificateData_def
        updateGeneratingCertificateError_def)
  show "restoreWalletStep (restoreWalletClose ext s)
     = (if shouldDisplayAbortAlert ext s \<and> \<not> restoreWalletShowAbortConfirmation s
        then restoreWalletStep s else None)"
    by (rule restoreWalletStep_restoreWalletClose)
  show "restoreWalletStep (snd (restoreWalletEnd s))
     = (if restoredWallet s \<noteq> None \<and> result (walletsRequest s) \<noteq> None then None
        else restoreWalletStep s)"
    by (rule restoreWalletStep_restoreWalletEnd)
  show "createWalletStep (createWalletBegin s) = Some 0"
    by (simp add: createWalletBegin_def)
  show "restoreWalletStep (restoreWalletBegin s) = Some 0"
    by (simp add: restoreWalletBegin_def)
  show "restoreWalletStep (snd (restore ext inflight unscrambled restored s))
     = (case restored of
          Resolved (Some w) \<Rightarrow>
            if fst (restore ext inflight unscrambled restored s) = Returned then Some 3
            else restoreWalletStep s
        | _ \<Rightarrow> restoreWalletStep s)"
    by (rule restoreWalletStep_restore)
qed

text \<open>
  C3 as amended on the initial store: one step forward in the create and the certificate
  wizard, one step back from step 0 in the restore wizard, the restoration that ends on
  step 3, and \<^verbatim>\<open>_restoreWalletClose\<close> at step 1 with a wallet name entered, which asks
  for the confirmation first and resets the step when it is called again.
\<close>

theorem wizard_steps_are_counters_with_jumps_witness:
  "createWalletStep (createWalletChangeStep False initialStore) = Some 1
   \<and> certificateStep (updateCertificateStep False initialStore) = Some 1
   \<and> restoreWalletStep (restoreWalletChangeStep True (restoreWalletBegin initialStore))
     = Some (- 1)
   \<and> restoreWalletStep
       (snd (restore plainExternals Rejected Rejected
               (Resolved (Some (exampleWallet ''R'' False))) (restoreWalletBegin initialStore)))
     = Some 3
   \<and> restoreWalletStep
       (restoreWalletClose plainExternals
          (initialStore\<lparr>restoreWalletStep := Some 1, walletName := ''mine''\<rparr>))
     = Some 1
   \<and> restoreWalletStep
       (restoreWalletClose plainExternals
          (restoreWalletClose plainExternals
             (initialStore\<lparr>restoreWalletStep := Some 1, walletName := ''mine''\<rparr>)))
     = None"
proof -
  let ?c = "initialStore\<lparr>restoreWalletStep := Some 1, walletName := ''mine''\<rparr>"
  have c1: "shouldDisplayAbortAlert plainExternals ?c \<and> \<not> restoreWalletShowAbortConfirmation ?c"
    by (simp add: shouldDisplayAbortAlert_def plainExternals_def initialStore_def)
  have c2: "restoreWalletShowAbortConfirmation (restoreWalletClose plainExternals ?c)"
    using c1 by (simp add: restoreWalletClose_def)
  from wizard_steps_are_counters_with_jumps
      [where isBack = False and s = initialStore and ext = plainExternals
         and inflight = Rejected and unscrambled = Rejected and restored = Rejected]
  have 1: "createWalletStep (createWalletChangeStep False initialStore) = Some 1
      \<and> certificateStep (updateCertificateStep False initialStore) = Some 1"
    by (simp add: stepValue_def initialStore_def)
  from wizard_steps_are_counters_with_jumps
      [where isBack = True and s = "restoreWalletBegin initialStore" and ext = plainExternals
         and inflight = Rejected and unscrambled = Rejected
         and restored = "Resolved (Some (exampleWallet ''R'' False))"]
  have 2: "restoreWalletStep (restoreWalletChangeStep True (restoreWalletBegin initialStore))
        = Some (- 1)
      \<and> restoreWalletStep
         (snd (restore plainExternals Rejected Rejected
                 (Resolved (Some (exampleWallet ''R'' False))) (restoreWalletBegin initialStore)))
        = Some 3"
    by (simp add: restore_example stepValue_def) (simp add: restoreWalletBegin_def)
  from wizard_steps_are_counters_with_jumps
      [where s = ?c and ext = plainExternals and isBack = False
         and inflight = Rejected and unscrambled = Rejected and restored = Rejected] c1
  have 3: "restoreWalletStep (restoreWalletClose plainExternals ?c) = Some 1"
    by simp
  from wizard_steps_are_counters_with_jumps
      [where s = "restoreWalletClose plainExternals ?c" and ext = plainExternals
         and isBack = False and inflight = Rejected and unscrambled = Rejected
         and restored = Rejected] c2
  have 4: "restoreWalletStep (restoreWalletClose plainExternals
        (restoreWalletClose plainExternals ?c)) = None"
    by simp
  from 1 2 3 4 show ?thesis by blast
qed

text \<open>
  Claim C3 as it is stated fails: \<^verbatim>\<open>_restore\<close> takes the restore wizard from step 0 to
  step 3, and \<^verbatim>\<open>_createWalletBegin\<close> takes the create wizard from step 2 to step 0;
  neither is one more or one less than the step before, or \<^verbatim>\<open>null\<close>.
\<close>

theorem wizard_step_jump_counterexample:
  "restoreWalletStep (restoreWalletBegin initialStore) = Some 0
   \<and> restoreWalletStep
       (snd (restore plainExternals Rejected Rejected
               (Resolved (Some (exampleWallet ''R'' False))) (restoreWalletBegin initialStore)))
     = Some 3
   \<and> \<not> linearOrReset (Some 0) (Some 3)
   \<and> createWalletStep (createWalletChangeStep False (createWalletChangeStep False initialStore))
     = Some 2
   \<and> createWalletStep
       (createWalletBegin
          (createWalletChangeStep False (createWalletChangeStep False initialStore)))
     = Some 0
   \<and> \<not> linearOrReset (Some 2) (Some 0)"
  by (simp add: restore_example linearOrReset_def stepValue_def)
    (simp add: restoreWalletBegin_def createWalletBegin_def createWalletChangeStep_def
      initialStore_def Let_def)

section \<open>Properties of the active wallet\<close>

lemma all_Nil_iff:
  "all s = [] \<longleftrightarrow> (case result (walletsRequest s) of None \<Rightarrow> True | Some r \<Rightarrow> r = [])"
proof (cases "result (walletsRequest s)")
  case None
  then show ?thesis by (simp add: all_def allWallets_def allLegacyWallets_def)
next
  case (Some r)
  have "length (filter (\<lambda>w. \<not> isLegacy w) r @ filter (\<lambda>w. isLegacy w) r) = length r"
    using sum_length_filter_compl [of "\<lambda>w. isLegacy w" r] by simp
  then have "(filter (\<lambda>w. \<not> isLegacy w) r @ filter (\<lambda>w. isLegacy w) r = []) = (r = [])"
    by (metis length_0_conv)
  then show ?thesis using Some by (simp add: all_eq [OF Some])
qed

lemma hasAnyWallets_if_loaded:
  assumes "hasAnyLoaded s"
    and "walletsRequestExecuted s"
  shows "hasAnyWallets s"
proof -
  from assms(1) have "all s \<noteq> []" by (simp add: hasAnyLoaded_def)
  then obtain r where "result (walletsRequest s) = Some r" "r \<noteq> []"
    by (auto simp: all_Nil_iff split: option.splits)
  with assms(2) show ?thesis by (simp add: hasAnyWallets_def walletsRequestExecuted_def)
qed

lemma active_trigger [simp]: "active (trigger e s) = active s"
  by (simp add: trigger_def)

lemma active_goToActiveWalletRoute [simp]: "active (goToActiveWalletRoute s) = active s"
  by (simp add: goToActiveWalletRoute_def goToWalletRoute_def split: option.split)

lemma all_trigger [simp]: "all (trigger e s) = all s"
  by (simp add: trigger_def all_def allWallets_def allLegacyWallets_def)

lemma setActiveWallet_active:
  assumes "hasAnyWallets s"
    and "find (\<lambda>w. id' w = i) (all s) = Some w"
    and "\<forall>a n. walletUpdate ext a n = n"
  shows "active (setActiveWallet ext i s) = Some w"
proof (cases "map_option id' (active s) = Some i")
  case False
  then show ?thesis
    using assms(1,2)
    by (simp add: setActiveWallet_def Let_def split: option.split)
next
  case True
  then obtain a where a: "active s = Some a" "id' a = i" by auto
  show ?thesis
  proof (cases "a = w")
    case True
    then show ?thesis
      using assms(1,2) a
      by (simp add: setActiveWallet_def Let_def)
  next
    case False
    then show ?thesis
      using assms a
      by (simp add: setActiveWallet_def Let_def)
  qed
qed

lemma unsetActiveWallet_fields:
  "active (unsetActiveWallet s) = None \<and> activeValue (unsetActiveWallet s) = None
   \<and> activePublicKey (unsetActiveWallet s) = None"
  by (simp add: unsetActiveWallet_def)


lemma firstWalletId_Cons: "all s = w # ws \<Longrightarrow> firstWalletId s = Inr (id' w)"
  by (simp add: firstWalletId_def)

lemma find_first: "all s = w # ws \<Longrightarrow> find (\<lambda>x. id' x = id' w) (all s) = Some w"
  by simp

text \<open>
  The initial store has \<open>walletsRequestExecuted\<close>, and the modelled operations that
  assign the wallets request or its result keep it.
\<close>

lemma walletsRequest_trigger [simp]: "walletsRequest (trigger e s) = walletsRequest s"
  by (simp add: trigger_def)

lemma walletsRequest_setActiveWallet [simp]:
  "walletsRequest (setActiveWallet ext i s) = walletsRequest s"
  by (simp add: setActiveWallet_def Let_def split: option.split)

lemma walletsRequestExecuted_initialStore: "walletsRequestExecuted initialStore"
  by (simp add: walletsRequestExecuted_def initialStore_def Request_new_def)

lemma walletsRequestExecuted_pausePolling:
  "walletsRequestExecuted s \<Longrightarrow> walletsRequestExecuted (snd (pausePolling inflight s))"
  by (cases inflight)
    (simp_all add: walletsRequestExecuted_def pausePolling_def Request_settle_def Let_def)

lemma walletsRequestExecuted_resumePolling:
  "walletsRequestExecuted s \<Longrightarrow> walletsRequestExecuted (resumePolling s)"
  by (simp add: walletsRequestExecuted_def resumePolling_def)

lemma walletsRequestExecuted_refresh_start:
  "walletsRequestExecuted s \<Longrightarrow> walletsRequestExecuted (snd (refreshWalletsData_start s))"
  by (simp add: walletsRequestExecuted_def refreshWalletsData_start_def Request_execute_def)

lemma walletsRequestExecuted_refresh_resume:
  "walletsRequestExecuted (snd (refreshWalletsData_resume ext answer s))"
proof (cases answer)
  case Rejected
  then show ?thesis
    by (simp add: walletsRequestExecuted_def refreshWalletsData_resume_def Request_settle_def)
next
  case (Resolved v)
  then show ?thesis
    by (cases v)
      (simp_all add: walletsRequestExecuted_def refreshWalletsData_resume_def Request_settle_def
        Let_def split: option.split)
qed

lemma walletsRequestExecuted_patch:
  "walletsRequestExecuted s \<Longrightarrow>
   walletsRequestExecuted (snd (patchWalletRequestWithNewWallet wallet s))"
  by (simp add: walletsRequestExecuted_def patchWalletRequestWithNewWallet_def split: option.split)

lemma walletsRequestExecuted_delete:
  "walletsRequestExecuted s \<Longrightarrow> walletsRequestExecuted (deleteFromWalletsRequest walletId s)"
  by (simp add: walletsRequestExecuted_def deleteFromWalletsRequest_def Let_def
      split: option.split)

text \<open>
  Claim C1. \<^verbatim>\<open>_updateActiveWalletOnRouteChanges\<close> returns, and the active wallet
  follows the route: on the add-wallet page, or with no wallet loaded, \<^verbatim>\<open>active\<close>,
  \<^verbatim>\<open>activeValue\<close> and \<^verbatim>\<open>activePublicKey\<close> are \<^verbatim>\<open>null\<close>; otherwise, when the route
  names the id of a wallet of the list, that wallet is active, and when it names an id
  that no wallet of the list has, the first wallet of the list is active. This is for a
  wallets request that holds a result only once it was executed
  (\<open>walletsRequestExecuted\<close>), and for a \<^verbatim>\<open>Wallet.update\<close> that makes the wallet it is
  called on equal to the wallet it is given; both are about code that is not among the
  files.
\<close>

theorem active_wallet_follows_route:
  assumes wf: "walletsRequestExecuted s"
    and upd: "\<forall>a n. walletUpdate ext a n = n"
  shows "\<exists>s'. updateActiveWalletOnRouteChanges ext s = (Returned, s')
      \<and> (isWalletAddPage (currentRoute (stores s)) \<or> \<not> hasAnyLoaded s \<longrightarrow>
            active s' = None \<and> activeValue s' = None \<and> activePublicKey s' = None)
      \<and> (\<forall>i w. \<not> isWalletAddPage (currentRoute (stores s))
            \<and> walletRouteMatch (currentRoute (stores s)) = Some i
            \<and> find (\<lambda>x. id' x = i) (all s) = Some w
            \<longrightarrow> active s' = Some w)
      \<and> (\<forall>i w ws. \<not> isWalletAddPage (currentRoute (stores s))
            \<and> walletRouteMatch (currentRoute (stores s)) = Some i
            \<and> find (\<lambda>x. id' x = i) (all s) = None
            \<and> all s = w # ws
            \<longrightarrow> active s' = Some w)"
proof (cases "isWalletAddPage (currentRoute (stores s)) \<or> \<not> hasAnyLoaded s")
  case True
  then have "updateActiveWalletOnRouteChanges ext s = (Returned, unsetActiveWallet s)"
    by (auto simp: updateActiveWalletOnRouteChanges_def Let_def)
  moreover have "\<And>i w. find (\<lambda>x. id' x = i) (all s) = Some w \<Longrightarrow> hasAnyLoaded s"
    by (auto simp: hasAnyLoaded_def)
  moreover have "\<And>w ws. all s = w # ws \<Longrightarrow> hasAnyLoaded s"
    by (simp add: hasAnyLoaded_def)
  ultimately show ?thesis
    using True unsetActiveWallet_fields [of s] by auto
next
  case False
  then have np: "\<not> isWalletAddPage (currentRoute (stores s))" and l: "hasAnyLoaded s"
    by simp_all
  have haw: "hasAnyWallets s"
    using l wf by (rule hasAnyWallets_if_loaded)
  from l obtain f fs where f: "all s = f # fs"
    by (cases "all s") (simp_all add: hasAnyLoaded_def)
  show ?thesis
  proof (cases "walletRouteMatch (currentRoute (stores s))")
    case None
    then have "\<exists>s'. updateActiveWalletOnRouteChanges ext s = (Returned, s')"
      using np l f
      by (simp add: updateActiveWalletOnRouteChanges_def Let_def firstWalletId_Cons)
    then show ?thesis using None False by auto
  next
    case (Some i)
    show ?thesis
    proof (cases "find (\<lambda>x. id' x = i) (all s)")
      case found: (Some w)
      have "updateActiveWalletOnRouteChanges ext s = (Returned, setActiveWallet ext (id' w) s)"
        using np l Some found
        by (simp add: updateActiveWalletOnRouteChanges_def Let_def)
      moreover have "id' w = i"
        using found by (auto dest: find_Some_iff [THEN iffD1])
      ultimately have "updateActiveWalletOnRouteChanges ext s = (Returned, setActiveWallet ext i s)"
        by simp
      moreover have "active (setActiveWallet ext i s) = Some w"
        using haw found upd by (rule setActiveWallet_active)
      ultimately show ?thesis
        using False Some found by auto
    next
      case None
      have "updateActiveWalletOnRouteChanges ext s =
          (Returned, goToActiveWalletRoute (setActiveWallet ext (id' f) s))"
        using np l Some None f
        by (simp add: updateActiveWalletOnRouteChanges_def Let_def firstWalletId_Cons)
      moreover have "active (setActiveWallet ext (id' f) s) = Some f"
        using haw find_first [OF f] upd by (rule setActiveWallet_active)
      ultimately show ?thesis
        using False Some None f by auto
    qed
  qed
qed

text \<open>
  C1 on four stores: on the add-wallet page the active wallet \<^verbatim>\<open>N1\<close> is unset; the
  route of \<^verbatim>\<open>L1\<close> makes \<^verbatim>\<open>L1\<close> active; the route of a wallet that is gone makes
  \<^verbatim>\<open>N1\<close> active, the first wallet of \<^verbatim>\<open>all\<close> for the result \<^verbatim>\<open>L1, N1\<close>; and on
  the route of \<^verbatim>\<open>N1\<close> an active wallet \<^verbatim>\<open>N1\<close> with an older amount becomes the
  \<^verbatim>\<open>N1\<close> of the list.
\<close>

theorem active_wallet_follows_route_witness:
  "active (snd (updateActiveWalletOnRouteChanges plainExternals
      (atRoute \<lparr>isWalletAddPage = True, isRootRoute = False, walletRouteMatch = Some ''add''\<rparr>
         ((loadedStore [exampleWallet ''N1'' False, exampleWallet ''L1'' True])
            \<lparr>active := Some (exampleWallet ''N1'' False)\<rparr>)))) = None
   \<and> active (snd (updateActiveWalletOnRouteChanges plainExternals
      (atRoute \<lparr>isWalletAddPage = False, isRootRoute = False, walletRouteMatch = Some ''L1''\<rparr>
         (loadedStore [exampleWallet ''N1'' False, exampleWallet ''L1'' True]))))
     = Some (exampleWallet ''L1'' True)
   \<and> active (snd (updateActiveWalletOnRouteChanges plainExternals
      (atRoute \<lparr>isWalletAddPage = False, isRootRoute = False, walletRouteMatch = Some ''gone''\<rparr>
         (loadedStore [exampleWallet ''L1'' True, exampleWallet ''N1'' False]))))
     = Some (exampleWallet ''N1'' False)
   \<and> active (snd (updateActiveWalletOnRouteChanges plainExternals
      (atRoute \<lparr>isWalletAddPage = False, isRootRoute = False, walletRouteMatch = Some ''N1''\<rparr>
         ((loadedStore [exampleWallet ''N1'' False, exampleWallet ''L1'' True])
            \<lparr>active := Some ((exampleWallet ''N1'' False)\<lparr>amount := 5\<rparr>)\<rparr>))))
     = Some (exampleWallet ''N1'' False)"
proof -
  let ?N = "exampleWallet ''N1'' False" and ?L = "exampleWallet ''L1'' True"
  let ?s4 = "atRoute \<lparr>isWalletAddPage = False, isRootRoute = False, walletRouteMatch = Some ''N1''\<rparr>
         ((loadedStore [?N, ?L])\<lparr>active := Some (?N\<lparr>amount := 5\<rparr>)\<rparr>)"
  let ?s1 = "atRoute \<lparr>isWalletAddPage = True, isRootRoute = False, walletRouteMatch = Some ''add''\<rparr>
         ((loadedStore [?N, ?L])\<lparr>active := Some ?N\<rparr>)"
  let ?s2 = "atRoute \<lparr>isWalletAddPage = False, isRootRoute = False, walletRouteMatch = Some ''L1''\<rparr>
         (loadedStore [?N, ?L])"
  let ?s3 = "atRoute \<lparr>isWalletAddPage = False, isRootRoute = False, walletRouteMatch = Some ''gone''\<rparr>
         (loadedStore [?L, ?N])"
  have u: "\<forall>a n. walletUpdate plainExternals a n = n"
    by (simp add: plainExternals_def)
  have w1: "walletsRequestExecuted ?s1"
    and w2: "walletsRequestExecuted ?s2"
    and w3: "walletsRequestExecuted ?s3"
    and w4: "walletsRequestExecuted ?s4"
    by (simp_all add: walletsRequestExecuted_def atRoute_def loadedStore_def)
  have r4: "\<not> isWalletAddPage (currentRoute (stores ?s4))
      \<and> walletRouteMatch (currentRoute (stores ?s4)) = Some ''N1''
      \<and> find (\<lambda>x. id' x = ''N1'') (all ?s4) = Some ?N"
    by (simp add: atRoute_def loadedStore_def all_def allWallets_def allLegacyWallets_def
        exampleWallet_def)
  from active_wallet_follows_route [OF w4 u] r4
  have 4: "active (snd (updateActiveWalletOnRouteChanges plainExternals ?s4)) = Some ?N"
    by fastforce
  have r1: "isWalletAddPage (currentRoute (stores ?s1))"
    by (simp add: atRoute_def)
  have r2: "\<not> isWalletAddPage (currentRoute (stores ?s2))
      \<and> walletRouteMatch (currentRoute (stores ?s2)) = Some ''L1''
      \<and> find (\<lambda>x. id' x = ''L1'') (all ?s2) = Some ?L"
    by (simp add: atRoute_def loadedStore_def all_def allWallets_def allLegacyWallets_def
        exampleWallet_def)
  have r3: "\<not> isWalletAddPage (currentRoute (stores ?s3))
      \<and> walletRouteMatch (currentRoute (stores ?s3)) = Some ''gone''
      \<and> find (\<lambda>x. id' x = ''gone'') (all ?s3) = None
      \<and> all ?s3 = ?N # [?L]"
    by (simp add: atRoute_def loadedStore_def all_def allWallets_def allLegacyWallets_def
        exampleWallet_def)
  from active_wallet_follows_route [OF w1 u] r1
  have 1: "active (snd (updateActiveWalletOnRouteChanges plainExternals ?s1)) = None"
    by fastforce
  from active_wallet_follows_route [OF w2 u] r2
  have 2: "active (snd (updateActiveWalletOnRouteChanges plainExternals ?s2)) = Some ?L"
    by fastforce
  from active_wallet_follows_route [OF w3 u] r3
  have 3: "active (snd (updateActiveWalletOnRouteChanges plainExternals ?s3)) = Some ?N"
    by fastforce
  from 1 2 3 4 show ?thesis by blast
qed

section \<open>Properties of sending money\<close>

lemma triggered_trigger [simp]: "triggered (trigger e s) = triggered s @ [e]"
  by (simp add: trigger_def)

lemma triggered_refresh_start:
  "triggered (snd (refreshWalletsData_start s)) =
     triggered s @ (if \<not> pollingBlocked s \<and> isConnected (stores s) then [ApiCall GetWallets] else [])"
  by (simp add: refreshWalletsData_start_def)

lemma formattedAssets_by_index:
  "formattedAssets ext p =
     (case assets p of
        None \<Rightarrow> None
      | Some as \<Rightarrow>
          if as = [] then None
          else Some (map (\<lambda>index.
                  \<lparr>policy_id = policyId (as ! index), asset_name = assetName (as ! index),
                   quantity =
                     (case assetsAmounts p of
                        None \<Rightarrow> Number 0
                      | Some amounts \<Rightarrow>
                          if index < length amounts then parseInt10 ext (amounts ! index)
                          else Number 0)\<rparr>)
                [0 ..< length as]))"
proof (cases "assets p")
  case None
  then show ?thesis by (simp add: formattedAssets_def)
next
  case (Some as)
  have "map (\<lambda>(a, index).
             \<lparr>policy_id = policyId a, asset_name = assetName a,
              quantity = getAmount (map_option (map (parseInt10 ext)) (assetsAmounts p)) index\<rparr>)
          (zip as [0 ..< length as])
      = map (\<lambda>index.
                  \<lparr>policy_id = policyId (as ! index), asset_name = assetName (as ! index),
                   quantity =
                     (case assetsAmounts p of
                        None \<Rightarrow> Number 0
                      | Some amounts \<Rightarrow>
                          if index < length amounts then parseInt10 ext (amounts ! index)
                          else Number 0)\<rparr>)
                [0 ..< length as]"
    by (rule nth_equalityI) (auto simp: getAmount_def split: option.split)
  then show ?thesis using Some by (simp add: formattedAssets_def)
qed

text \<open>
  Claim C5. \<^verbatim>\<open>_sendMoney\<close> hands the transaction to the backend. Without an active
  wallet it throws and leaves the store as it was: no request is made. With an active
  wallet it makes one \<^verbatim>\<open>createTransaction\<close> request, with the receiver as address,
  \<^verbatim>\<open>parseInt(amount, 10)\<close> as amount, the passphrase, the id and the \<^verbatim>\<open>isLegacy\<close> flag
  of the active wallet and the formatted assets; when the request is rejected nothing
  follows it, and otherwise what follows is the start of a wallets refresh (one
  \<^verbatim>\<open>getWallets\<close> request, unless polling is blocked or the node is not connected), the
  closing of the dialog and the route to the wallet.
\<close>

theorem sendMoney_delegates_to_backend:
  "(active s = None \<longrightarrow>
      sendMoney ext p sent s = (Threw (Error ''Active wallet required before sending.''), s))
   \<and> (\<forall>wallet. active s = Some wallet \<longrightarrow>
        (\<exists>s'. sendMoney ext p sent s =
                 ((case sent of Rejected \<Rightarrow> Threw RequestRejected | Resolved v \<Rightarrow> Returned), s')
              \<and> triggered s' =
                  triggered s
                  @ [ApiCall (CreateTransaction (receiver p) (parseInt10 ext (sendAmount p))
                                (passphrase p) (id' wallet) (isLegacy wallet)
                                (formattedAssets ext p))]
                  @ (case sent of
                       Rejected \<Rightarrow> []
                     | Resolved v \<Rightarrow>
                         (if \<not> pollingBlocked s \<and> isConnected (stores s)
                          then [ApiCall GetWallets] else [])
                         @ [CloseActiveDialog, GoToWalletPage (id' wallet) ''summary''])))"
proof (intro conjI allI impI)
  assume "active s = None"
  then show "sendMoney ext p sent s = (Threw (Error ''Active wallet required before sending.''), s)"
    by (simp add: sendMoney_def)
next
  fix wallet
  assume a: "active s = Some wallet"
  show "\<exists>s'. sendMoney ext p sent s =
                 ((case sent of Rejected \<Rightarrow> Threw RequestRejected | Resolved v \<Rightarrow> Returned), s')
              \<and> triggered s' =
                  triggered s
                  @ [ApiCall (CreateTransaction (receiver p) (parseInt10 ext (sendAmount p))
                                (passphrase p) (id' wallet) (isLegacy wallet)
                                (formattedAssets ext p))]
                  @ (case sent of
                       Rejected \<Rightarrow> []
                     | Resolved v \<Rightarrow>
                         (if \<not> pollingBlocked s \<and> isConnected (stores s)
                          then [ApiCall GetWallets] else [])
                         @ [CloseActiveDialog, GoToWalletPage (id' wallet) ''summary''])"
  proof (cases sent)
    case Rejected
    then show ?thesis using a by (simp add: sendMoney_def Let_def)
  next
    case (Resolved v)
    then show ?thesis using a
      by (simp add: sendMoney_def Let_def goToWalletRoute_def triggered_refresh_start trigger_def)
  qed
qed

text \<open>
  C5 on the initial store, which has no active wallet, and on a store with the active
  wallet \<^verbatim>\<open>N1\<close>, where one asset is sent.
\<close>

theorem sendMoney_delegates_to_backend_witness:
  "sendMoney plainExternals
      \<lparr>receiver = ''addr1'', sendAmount = ''1000000'', passphrase = ''secret'',
       assets = Some [\<lparr>policyId = ''policy'', assetName = ''coin''\<rparr>],
       assetsAmounts = Some [''5'']\<rparr>
      (Resolved (Some ''tx'')) initialStore
     = (Threw (Error ''Active wallet required before sending.''), initialStore)
   \<and> triggered (snd (sendMoney plainExternals
      \<lparr>receiver = ''addr1'', sendAmount = ''1000000'', passphrase = ''secret'',
       assets = Some [\<lparr>policyId = ''policy'', assetName = ''coin''\<rparr>],
       assetsAmounts = Some [''5'']\<rparr>
      (Resolved (Some ''tx''))
      ((loadedStore [exampleWallet ''N1'' False])\<lparr>active := Some (exampleWallet ''N1'' False)\<rparr>)))
     = [ApiCall (CreateTransaction ''addr1'' (Number 1000000) ''secret'' ''N1'' False
                   (Some [\<lparr>policy_id = ''policy'', asset_name = ''coin'', quantity = Number 5\<rparr>])),
        ApiCall GetWallets, CloseActiveDialog, GoToWalletPage ''N1'' ''summary'']"
proof -
  let ?p = "\<lparr>receiver = ''addr1'', sendAmount = ''1000000'', passphrase = ''secret'',
       assets = Some [\<lparr>policyId = ''policy'', assetName = ''coin''\<rparr>],
       assetsAmounts = Some [''5'']\<rparr>"
  let ?s = "(loadedStore [exampleWallet ''N1'' False])\<lparr>active := Some (exampleWallet ''N1'' False)\<rparr>"
  have n: "active initialStore = None"
    by (simp add: initialStore_def)
  have a: "active ?s = Some (exampleWallet ''N1'' False)"
    by simp
  have e: "parseInt10 plainExternals ''1000000'' = Number 1000000"
    "parseInt10 plainExternals ''5'' = Number 5"
    by (simp_all add: plainExternals_def decimalParseInt_def digitValue_def)
  have f: "formattedAssets plainExternals ?p
      = Some [\<lparr>policy_id = ''policy'', asset_name = ''coin'', quantity = Number 5\<rparr>]"
    by (simp add: formattedAssets_def getAmount_def e)
  from sendMoney_delegates_to_backend [of initialStore plainExternals ?p "Resolved (Some ''tx'')"] n
  have 1: "sendMoney plainExternals ?p (Resolved (Some ''tx'')) initialStore
     = (Threw (Error ''Active wallet required before sending.''), initialStore)"
    by blast
  from sendMoney_delegates_to_backend [of ?s plainExternals ?p "Resolved (Some ''tx'')"] a
  obtain s' where s': "sendMoney plainExternals ?p (Resolved (Some ''tx'')) ?s = (Returned, s')"
    "triggered s' =
        triggered ?s
        @ [ApiCall (CreateTransaction (receiver ?p) (parseInt10 plainExternals (sendAmount ?p))
                      (passphrase ?p) (id' (exampleWallet ''N1'' False))
                      (isLegacy (exampleWallet ''N1'' False)) (formattedAssets plainExternals ?p))]
        @ (if \<not> pollingBlocked ?s \<and> isConnected (stores ?s) then [ApiCall GetWallets] else [])
        @ [CloseActiveDialog, GoToWalletPage (id' (exampleWallet ''N1'' False)) ''summary'']"
    by auto
  have 2: "triggered (snd (sendMoney plainExternals ?p (Resolved (Some ''tx'')) ?s))
     = [ApiCall (CreateTransaction ''addr1'' (Number 1000000) ''secret'' ''N1'' False
                   (Some [\<lparr>policy_id = ''policy'', asset_name = ''coin'', quantity = Number 5\<rparr>])),
        ApiCall GetWallets, CloseActiveDialog, GoToWalletPage ''N1'' ''summary'']"
    by (simp only: s' snd_conv)
      (simp add: f e loadedStore_def initialStore_def initialStores_def exampleWallet_def)
  from 1 2 show ?thesis by blast
qed

end
